theory Spec2Isabelle
  imports Main "HOL-Library.Word"
begin

section \<open>Pixel formats (src/src/imagestructs.cpp)\<close>

text \<open>
  Modelled from the spec: the enumeration \<open>ColorFormat\<close> is declared in imagestructs.h, which
  is not among the sources. The spec names its tags (Paletted1, Paletted2, Paletted4,
  Paletted8, RGB555, RGB565, RGB888), and these are the tags the switch statements of
  imagestructs.cpp name. A C++ enumeration object can hold further values of its underlying
  type (further enumerators of the header, or a cast integer); \<open>OtherFormat n\<close> stands for
  such a value, the one the \<open>default:\<close> branch of a switch receives.
\<close>

datatype ColorFormat =
    Paletted1 | Paletted2 | Paletted4 | Paletted8
  | RGB555 | RGB565 | RGB888
  | OtherFormat int

text \<open>\<open>std::runtime_error\<close> with its message.\<close>

datatype runtime_error = RuntimeError string

text \<open>
  \<open>uint32_t bitsPerPixelForFormat(ColorFormat format)\<close>: a switch over the tag, whose
  default branch throws \<open>std::runtime_error("Bad color format")\<close>.
\<close>

fun bitsPerPixelForFormat :: "ColorFormat \<Rightarrow> runtime_error + 32 word" where
  "bitsPerPixelForFormat Paletted1 = Inr 1"
| "bitsPerPixelForFormat Paletted2 = Inr 2"
| "bitsPerPixelForFormat Paletted4 = Inr 4"
| "bitsPerPixelForFormat Paletted8 = Inr 8"
| "bitsPerPixelForFormat RGB555 = Inr 15"
| "bitsPerPixelForFormat RGB565 = Inr 16"
| "bitsPerPixelForFormat RGB888 = Inr 24"
| "bitsPerPixelForFormat (OtherFormat n) = Inl (RuntimeError ''Bad color format'')"

section \<open>The device decoder's main (src/gba/video.cpp)\<close>

text \<open>
  What \<open>Video::GetInfo\<close> returns (videoreader.h of the device side is not among the
  sources): the fields main prints with \<open>%d\<close>, taken as 32-bit words.
\<close>

record Info =
  nrOfFrames :: "32 word"
  fps :: "32 word"
  width :: "32 word"
  height :: "32 word"
  bitsPerPixel :: "32 word"
  colorMapEntries :: "32 word"
  bitsInColorMap :: "32 word"
  maxMemoryNeeded :: "32 word"

text \<open>
  The functions of namespace \<open>Video\<close> that main calls; none of them is among the sources,
  so nothing is assumed about them, not even that a call returns. \<open>getInfo\<close> is
  \<open>Video::GetInfo(VIDEO_DATA)\<close>: the info it returns, \<open>None\<close> when it does not return.
  \<open>getNextFrame\<close> is \<open>Video::GetNextFrame\<close> for an info and the frame before: the frame it
  returns, \<open>None\<close> when it does not return. \<open>decode\<close> is \<open>Video::decode\<close> for a scratch pad
  size, an info and a frame: whether the call returns. \<open>'f\<close> is \<open>Video::Frame\<close>.
\<close>

record 'f VideoCalls =
  getInfo :: "Info option"
  getNextFrame :: "Info \<Rightarrow> 'f \<Rightarrow> 'f option"
  decode :: "nat \<Rightarrow> Info \<Rightarrow> 'f \<Rightarrow> bool"

text \<open>
  What main does, as the sequence of its calls and register writes: the set-up of lines
  30-36, the call of \<open>Video::GetInfo\<close>, \<open>TUI::printf\<close> with its position, format and
  arguments, \<open>scanKeys()\<close>, the switch to video mode 3 (line 56), the start of timer 3 with
  its reload value (lines 61-66), and in the main loop the calls of \<open>Video::GetNextFrame\<close>
  and of \<open>Video::decode\<close> with their arguments (for \<open>decode\<close> the size of the scratch pad,
  the info and the frame) and \<open>Debug::printf\<close>.
\<close>

datatype 'f DecoderEvent =
    Setup
  | GetInfo
  | TuiPrintf nat nat string "32 word list"
  | ScanKeys
  | VideoMode
  | Timer3 "16 word"
  | GetNextFrame Info 'f
  | Decode nat Info 'f
  | DebugPrintf

text \<open>
  \<open>sizeof(ScratchPad)\<close> for \<open>uint32_t ScratchPad[19208 * 2 / 4]\<close>: the number of elements
  times four bytes.
\<close>

definition sizeofScratchPad :: nat where
  "sizeofScratchPad = (19208 * 2 div 4) * 4"

text \<open>
  Lines 47-54: the loop that waits for key A. The list tells, for each \<open>scanKeys()\<close>,
  whether \<open>keysDown() & KEY_A\<close> is set after it. The result is the number of scans until
  the loop is left, \<open>None\<close> when the key is not pressed in the scans given.
\<close>

fun waitForKeyA :: "bool list \<Rightarrow> nat option" where
  "waitForKeyA [] = None"
| "waitForKeyA (a # rest) = (if a then Some 1 else map_option Suc (waitForKeyA rest))"

text \<open>
  Lines 68-85: the main loop, which has no exit; the model gives what it does in its first
  \<open>n\<close> rounds, or up to a call that does not return.
\<close>

fun mainLoop :: "nat \<Rightarrow> 'f VideoCalls \<Rightarrow> Info \<Rightarrow> 'f \<Rightarrow> 'f DecoderEvent list" where
  "mainLoop 0 calls videoInfo frame = []"
| "mainLoop (Suc n) calls videoInfo frame =
     GetNextFrame videoInfo frame #
     (case getNextFrame calls videoInfo frame of
        None \<Rightarrow> []
      | Some frame \<Rightarrow>
          Decode sizeofScratchPad videoInfo frame #
          (if decode calls sizeofScratchPad videoInfo frame
           then DebugPrintf # mainLoop n calls videoInfo frame
           else []))"

text \<open>
  \<open>int main()\<close> of the decoder, given the value initialised frame \<open>Video::Frame frame{}\<close>
  and the keys: what main has done when a call does not return, when the keys given are
  used up without key A, or else after \<open>n\<close> rounds of the main loop. Line 66 divides by
  \<open>videoInfo.fps\<close>: with 0 frames per second the behaviour is undefined, \<open>None\<close>. Between
  the call of \<open>Video::GetInfo\<close> and the main loop there is no statement that reads
  \<open>maxMemoryNeeded\<close> but the \<open>TUI::printf\<close> of line 45.
\<close>

definition decoderMain ::
  "nat \<Rightarrow> 'f VideoCalls \<Rightarrow> 'f \<Rightarrow> bool list \<Rightarrow> 'f DecoderEvent list option"
where
  "decoderMain n calls frame0 keys =
     (case getInfo calls of
        None \<Rightarrow> Some [Setup, GetInfo]
      | Some videoInfo \<Rightarrow>
          (let out =
             [Setup, GetInfo,
              TuiPrintf 0 0 ''Frames: %d, Fps: %d'' [nrOfFrames videoInfo, fps videoInfo],
              TuiPrintf 0 1 ''Size: %dx%d'' [width videoInfo, height videoInfo],
              TuiPrintf 0 2 ''Bits / pixel: %d'' [bitsPerPixel videoInfo],
              TuiPrintf 0 3 ''Colors in colormap: %d'' [colorMapEntries videoInfo],
              TuiPrintf 0 4 ''Bits / color: %d'' [bitsInColorMap videoInfo],
              TuiPrintf 0 5 ''Memory needed: %d'' [maxMemoryNeeded videoInfo]]
           in case waitForKeyA keys of
                None \<Rightarrow> Some (out @ replicate (length keys) ScanKeys)
              | Some k \<Rightarrow>
                  if fps videoInfo = 0 then None
                  else Some (out @ replicate k ScanKeys
                             @ [VideoMode, Timer3 (ucast (65536 - 65536 div fps videoInfo))]
                             @ mainLoop n calls videoInfo frame0)))"

text \<open>The calls of \<open>Video::decode\<close> among the events.\<close>

fun isDecode :: "'f DecoderEvent \<Rightarrow> bool" where
  "isDecode (Decode n i f) = True"
| "isDecode _ = False"

section \<open>The encoder's options and processing steps (src/vid2h.cpp)\<close>

text \<open>
  The global \<open>options\<close> of vid2h.cpp is a \<open>ProcessingOptions\<close> object, declared in
  processingoptions.h, which is not among the sources. vid2h.cpp shows what it uses of it:
  every option converts to bool and has \<open>isSet\<close>; some options carry a \<open>value\<close>. The field
  is named \<open>value'\<close> here, \<open>value\<close> being a keyword. The value of \<open>paletted\<close> is added to
  an integer and stored in a \<open>uint32_t\<close>, so it is a 32-bit word; the types of the other
  values are not visible and stay a type parameter \<open>'v\<close>; the value of \<open>sprites\<close> is a
  container, of which \<open>front()\<close> is read.
\<close>

record BoolOption =
  isSet :: bool

record 'a ValueOption = BoolOption +
  value' :: 'a

record 'v ProcessingOptions =
  blackWhite :: "'v ValueOption"
  paletted :: "32 word ValueOption"
  truecolor :: "'v ValueOption"
  addColor0 :: "'v ValueOption"
  moveColor0 :: "'v ValueOption"
  shiftIndices :: "'v ValueOption"
  pruneIndices :: BoolOption
  sprites :: "'v list ValueOption"
  tiles :: BoolOption
  deltaImage :: BoolOption
  delta8 :: BoolOption
  delta16 :: BoolOption
  dxt1 :: BoolOption
  rle :: BoolOption
  lz10 :: BoolOption
  lz11 :: BoolOption
  vram :: BoolOption
  dryRun :: BoolOption

text \<open>\<open>Image::Processing::Type\<close>, with the enumerators vid2h.cpp names.\<close>

datatype ProcessingType =
    InputBlackWhite | InputPaletted | InputTruecolor
  | ReorderColors | AddColor0 | MoveColor0 | ShiftIndices | PruneIndices | PadColorMap
  | ConvertSprites | ConvertTiles
  | DeltaImage
  | CompressDXT1
  | ConvertDelta8 | ConvertDelta16
  | CompressRLE | CompressLz10 | CompressLz11
  | PadImageData

text \<open>
  The parameters handed to \<open>addStep\<close> in braces: an option's value, the reference colour
  map \<open>buildColorMapRGB555()\<close>, a \<open>uint32_t\<close>, or a bool.
\<close>

datatype 'v Parameter =
    Value 'v
  | ColorMapRGB555
  | UInt32 "32 word"
  | Bool bool

record 'v PipelineStep =
  kind :: ProcessingType
  parameters :: "'v Parameter list"
  compresses :: bool

text \<open>
  Modelled from the spec: \<open>Image::Processing::addStep\<close> is declared in imageprocessing.h,
  which is not among the sources. The spec: "\<open>addStep(kind, parameters, compresses=false)\<close>
  appends a step"; the pipeline "is an ordered sequence of steps".
\<close>

definition addStep ::
  "'v PipelineStep list \<Rightarrow> ProcessingType \<Rightarrow> 'v Parameter list \<Rightarrow> bool \<Rightarrow> 'v PipelineStep list"
where
  "addStep processing t ps c = processing @ [\<lparr>kind = t, parameters = ps, compresses = c\<rparr>]"

text \<open>
  main, lines 230-270: the input step and the palette conversion steps. Each \<open>let\<close> is one
  statement of the source, in its order.
\<close>

definition addInputSteps :: "'v ProcessingOptions \<Rightarrow> 'v PipelineStep list \<Rightarrow> 'v PipelineStep list" where
  "addInputSteps opts processing =
     (if isSet (blackWhite opts) then
        addStep processing InputBlackWhite [Value (value' (blackWhite opts))] False
      else if isSet (paletted opts) then
        addStep processing InputPaletted [ColorMapRGB555, UInt32 (value' (paletted opts))] False
      else if isSet (truecolor opts) then
        addStep processing InputTruecolor [Value (value' (truecolor opts))] False
      else processing)"

definition addConversionSteps :: "'v ProcessingOptions \<Rightarrow> 'v PipelineStep list \<Rightarrow> 'v PipelineStep list" where
  "addConversionSteps opts processing =
     (if isSet (paletted opts) then
        (let processing = addStep processing ReorderColors [] False;
             processing = (if isSet (addColor0 opts)
                           then addStep processing AddColor0 [Value (value' (addColor0 opts))] False
                           else processing);
             processing = (if isSet (moveColor0 opts)
                           then addStep processing MoveColor0 [Value (value' (moveColor0 opts))] False
                           else processing);
             processing = (if isSet (shiftIndices opts)
                           then addStep processing ShiftIndices [Value (value' (shiftIndices opts))] False
                           else processing)
         in if isSet (pruneIndices opts) then
              addStep (addStep processing PruneIndices [] False) PadColorMap [UInt32 16] False
            else
              addStep processing PadColorMap
                [UInt32 (value' (paletted opts) + (if isSet (addColor0 opts) then 1 else 0))] False)
      else processing)"

text \<open>
  main, lines 271-274: \<open>options.sprites.value.front()\<close>. \<open>front()\<close> of an empty container
  is undefined behaviour: the model has no pipeline then (\<open>None\<close>).
\<close>

definition addSpritesStep ::
  "'v ProcessingOptions \<Rightarrow> 'v PipelineStep list \<Rightarrow> 'v PipelineStep list option" where
  "addSpritesStep opts processing =
     (if isSet (sprites opts) then
        (case value' (sprites opts) of
           [] \<Rightarrow> None
         | front # _ \<Rightarrow> Some (addStep processing ConvertSprites [Value front] False))
      else Some processing)"

text \<open>main, lines 275-307: reshaping to tiles, deltas, compression and padding.\<close>

definition addCompressionSteps :: "'v ProcessingOptions \<Rightarrow> 'v PipelineStep list \<Rightarrow> 'v PipelineStep list" where
  "addCompressionSteps opts processing =
     (let processing = (if isSet (tiles opts)
                        then addStep processing ConvertTiles [] False else processing);
          processing = (if isSet (deltaImage opts)
                        then addStep processing DeltaImage [] False else processing);
          processing = (if isSet (dxt1 opts)
                        then addStep processing CompressDXT1 [] True else processing);
          processing = (if isSet (delta8 opts)
                        then addStep processing ConvertDelta8 [] False else processing);
          processing = (if isSet (delta16 opts)
                        then addStep processing ConvertDelta16 [] False else processing);
          processing = (if isSet (rle opts)
                        then addStep processing CompressRLE [Bool (isSet (vram opts))] True
                        else processing);
          processing = (if isSet (lz10 opts)
                        then addStep processing CompressLz10 [Bool (isSet (vram opts))] True
                        else processing);
          processing = (if isSet (lz11 opts)
                        then addStep processing CompressLz11 [Bool (isSet (vram opts))] True
                        else processing)
      in addStep processing PadImageData [UInt32 4] False)"

text \<open>main, lines 230-307 as a whole, from the empty \<open>Image::Processing processing\<close>.\<close>

definition buildProcessing :: "'v ProcessingOptions \<Rightarrow> 'v PipelineStep list option" where
  "buildProcessing opts =
     map_option (addCompressionSteps opts)
       (addSpritesStep opts (addConversionSteps opts (addInputSteps opts [])))"

section \<open>The encoder's command line and main (src/vid2h.cpp)\<close>

text \<open>
  What \<open>opts.parse(argc, argv)\<close> of cxxopts returns, as far as \<open>readArguments\<close> reads it:
  \<open>result.count("h")\<close>, the options \<open>outname\<close> and \<open>infile\<close> (\<open>None\<close> when their count is 0)
  and the further positional arguments. \<open>options\<close> is the global \<open>options\<close> as the command
  line fills it: cxxopts and the options' own \<open>parse\<close> (processingoptions.h) do that, the
  model takes the filled object. \<open>readArguments\<close> and main read an option only after the
  call that fills it.
\<close>

record 'v CommandLine =
  argc :: int
  count_h :: nat
  outname :: "string option"
  infile :: "string option"
  positional :: "string list"
  options :: "'v ProcessingOptions"

text \<open>The globals \<open>m_inFile\<close> and \<open>m_outFile\<close>, empty strings when the program starts.\<close>

record Globals =
  m_inFile :: string
  m_outFile :: string

definition initialGlobals :: Globals where
  "initialGlobals = \<lparr>m_inFile = [], m_outFile = []\<rparr>"

text \<open>
  What the program prints, in order: a line on \<open>std::cout\<close> or on \<open>std::cerr\<close> with its
  text, the usage text of \<open>printUsage()\<close> (all of it on \<open>std::cout\<close>), and the lines on
  \<open>std::cout\<close> whose text holds numbers of types declared outside the sources (the video
  stream's data, the processing description, the three statistics lines); for these the
  model records that the line is printed. The progress lines of the frame loop (lines
  325-333, time dependent) are left out.
\<close>

datatype Event =
    Cout string
  | Cerr string
  | PrintUsage
  | VideoStreamLine
  | ApplyingProcessingLine
  | InputSizeLine
  | CompressedSizeLine
  | BitRateLine

text \<open>\<open>VideoReader::VideoInfo\<close> (videoreader.h is not among the sources): the frame count.\<close>

record VideoInfo =
  nrOfFrames :: nat

text \<open>
  A video as \<open>VideoReader\<close> delivers it: its info and the frames \<open>readFrame()\<close> returns one
  after the other, each a byte vector; after the last one \<open>readFrame()\<close> returns an empty
  vector.
\<close>

record Video =
  info :: VideoInfo
  frames :: "8 word list list"

text \<open>
  The world the program runs in. \<open>stdfs_exists\<close> is \<open>stdfs::exists\<close>. \<open>openVideo\<close> is
  \<open>videoReader.open\<close> followed by \<open>getInfo\<close>, which may throw \<open>std::runtime_error\<close>.
  \<open>processStream\<close> is \<open>Image::Processing::processStream\<close> (imageprocessing.h is not among
  the sources): the processing object keeps state between frames, so the result for a frame
  depends on the steps and on all frames handed over so far, the last one being the current
  one; it may throw \<open>std::runtime_error\<close>; \<open>'i\<close> is \<open>Image::Data\<close>. \<open>canOpen\<close> tells whether
  \<open>std::ofstream\<close> opens the named file for writing.
\<close>

record ('v, 'i) Environment =
  stdfs_exists :: "string \<Rightarrow> bool"
  openVideo :: "string \<Rightarrow> runtime_error + Video"
  processStream :: "'v PipelineStep list \<Rightarrow> VideoInfo \<Rightarrow> 8 word list list \<Rightarrow> runtime_error + 'i"
  canOpen :: "string \<Rightarrow> bool"

text \<open>
  readArguments, lines 109-124: the loop over the positional arguments.
  \<^verbatim>\<open>
  while (pIt != positional.cend() && (m_inFile.empty() || m_outFile.empty())) {
      if (m_inFile.empty())  { m_inFile = *pIt++; }
      if (m_outFile.empty()) { m_outFile = *pIt++; }
  }
  \<close>
  The list is what is left from \<open>pIt\<close> on. When \<open>m_inFile\<close> has taken the last argument and
  \<open>m_outFile\<close> is empty, the second statement reads \<open>*pIt\<close> at \<open>cend()\<close>: undefined
  behaviour, \<open>None\<close>. In the last branch \<open>m_inFile\<close> is not empty, so by the loop's
  condition \<open>m_outFile\<close> is.
\<close>

fun positionalLoop :: "string list \<Rightarrow> Globals \<Rightarrow> Globals option" where
  "positionalLoop [] g = Some g"
| "positionalLoop (p # ps) g =
     (if m_inFile g = [] \<or> m_outFile g = [] then
        (if m_inFile g = [] then
           (let g = g\<lparr>m_inFile := p\<rparr> in
            if m_outFile g = [] then
              (case ps of
                 [] \<Rightarrow> None
               | q # qs \<Rightarrow> positionalLoop qs (g\<lparr>m_outFile := q\<rparr>))
            else positionalLoop ps g)
         else positionalLoop ps (g\<lparr>m_outFile := p\<rparr>))
      else Some g)"

text \<open>
  \<open>options.blackWhite + options.paletted + options.truecolor\<close>: each option converts to
  bool, and the bools are added as integers.
\<close>

definition formatCount :: "'v ProcessingOptions \<Rightarrow> int" where
  "formatCount opts =
     of_bool (isSet (blackWhite opts)) + of_bool (isSet (paletted opts)) + of_bool (isSet (truecolor opts))"

text \<open>
  \<open>bool readArguments(int argc, const char *argv[])\<close>: the result, the globals as it leaves
  them and what it prints; \<open>None\<close> where the positional loop is undefined.
\<close>

definition readArguments ::
  "('v, 'i) Environment \<Rightarrow> 'v CommandLine \<Rightarrow> Globals \<Rightarrow> (bool \<times> Globals \<times> Event list) option"
where
  "readArguments env cl g =
     (if count_h cl \<noteq> 0 then Some (False, g, [])
      else
        let g = (case outname cl of None \<Rightarrow> g | Some n \<Rightarrow> g\<lparr>m_outFile := n\<rparr>);
            g = (case infile cl of None \<Rightarrow> g | Some f \<Rightarrow> g\<lparr>m_inFile := f\<rparr>)
        in
          if infile cl \<noteq> None \<and> \<not> stdfs_exists env (m_inFile g) then
            Some (False, g,
              [Cout (''Input file '' @ [CHR 0x22] @ m_inFile g @ [CHR 0x22] @ '' does not exist!'')])
          else
            (case (if positional cl \<noteq> [] then positionalLoop (positional cl) g else Some g) of
               None \<Rightarrow> None
             | Some g \<Rightarrow>
                 if formatCount (options cl) = 0 then
                   Some (False, g, [Cerr ''One format option is needed.''])
                 else if formatCount (options cl) > 1 then
                   Some (False, g, [Cerr ''Only a single format option is allowed.''])
                 else if isSet (lz10 (options cl)) \<and> isSet (lz11 (options cl)) then
                   Some (False, g, [Cerr ''Only a single LZ-compression option is allowed.''])
                 else Some (True, g, [])))"

text \<open>
  main, lines 315-334: the loop that reads and processes the frames. The list is what the
  reader has still to deliver, \<open>fed\<close> the frames handed to \<open>processStream\<close> so far, \<open>images\<close>
  the vector \<open>images\<close>. The loop ends at an empty frame. An exception of \<open>processStream\<close>
  leaves the loop (\<open>Inl\<close>). After each frame, \<open>(100 * images.size()) / videoInfo.nrOfFrames\<close>
  divides by the frame count: with a frame count of 0 the behaviour is undefined, \<open>None\<close>.
\<close>

fun readFrames ::
  "('v, 'i) Environment \<Rightarrow> 'v PipelineStep list \<Rightarrow> VideoInfo \<Rightarrow> 8 word list list \<Rightarrow>
   8 word list list \<Rightarrow> 'i list \<Rightarrow> (runtime_error + 'i list) option"
where
  "readFrames env processing videoInfo [] fed images = Some (Inr images)"
| "readFrames env processing videoInfo (frame # rest) fed images =
     (if frame = [] then Some (Inr images)
      else
        (case processStream env processing videoInfo (fed @ [frame]) of
           Inl e \<Rightarrow> Some (Inl e)
         | Inr img \<Rightarrow>
             if nrOfFrames videoInfo = 0 then None
             else readFrames env processing videoInfo rest (fed @ [frame]) (images @ [img])))"

text \<open>
  What a run of the program leaves behind: the value main returns, what it printed, the
  content of the files (a file that \<open>std::ofstream\<close> opens with \<open>std::ios::out\<close> is created
  or truncated: its content is empty until something is written), and the vector \<open>images\<close>
  (empty when the run ends before all frames are processed).
\<close>

record 'i Run =
  exitCode :: int
  printed :: "Event list"
  files :: "string \<Rightarrow> 8 word list option"
  images :: "'i list"

text \<open>
  main, lines 340-373, after the statistics are printed: the output file. The body of the
  \<open>try\<close> block holds no statement (\<open>// TODO\<close>, \<open>//binFile.write();\<close>), so nothing is written
  to \<open>binFile\<close> and nothing is thrown.
\<close>

definition writeOutput ::
  "('v, 'i) Environment \<Rightarrow> 'v ProcessingOptions \<Rightarrow> Globals \<Rightarrow> Event list \<Rightarrow>
   (string \<Rightarrow> 8 word list option) \<Rightarrow> 'i list \<Rightarrow> 'i Run"
where
  "writeOutput env opts g out fs imgs =
     (if \<not> isSet (dryRun opts) then
        (if canOpen env (m_outFile g @ ''.bin'') then
           \<lparr>exitCode = 0,
            printed = out @ [Cout (''Writing output file '' @ m_outFile g @ ''.bin''), Cout ''Done''],
            files = fs(m_outFile g @ ''.bin'' \<mapsto> []),
            images = imgs\<rparr>
         else
           \<lparr>exitCode = 1,
            printed = out @ [Cerr (''Failed to open '' @ m_outFile g @ ''.bin for writing'')],
            files = fs, images = imgs\<rparr>)
      else
        \<lparr>exitCode = 0, printed = out @ [Cout ''Done''], files = fs, images = imgs\<rparr>)"

text \<open>
  main, lines 212-346: the video is opened, the pipeline built and the frames processed.
  \<open>images.front()\<close> of an empty \<open>images\<close> (line 336) is undefined behaviour: \<open>None\<close>. A
  \<open>std::runtime_error\<close> of \<open>processStream\<close> is caught by the outer handler.
\<close>

definition processVideo ::
  "('v, 'i) Environment \<Rightarrow> 'v ProcessingOptions \<Rightarrow> Globals \<Rightarrow> Event list \<Rightarrow>
   (string \<Rightarrow> 8 word list option) \<Rightarrow> 'i Run option"
where
  "processVideo env opts g out fs =
     (let out = out @ [Cout (''Opening '' @ m_inFile g @ ''...'')] in
      case openVideo env (m_inFile g) of
        Inl (RuntimeError what) \<Rightarrow>
          Some \<lparr>exitCode = 1, printed = out @ [Cerr (''Failed to open video file: '' @ what)],
                files = fs, images = []\<rparr>
      | Inr video \<Rightarrow>
          (let out = out @ [VideoStreamLine] in
           case buildProcessing opts of
             None \<Rightarrow> None
           | Some processing \<Rightarrow>
               (let out = out @ [ApplyingProcessingLine] in
                case readFrames env processing (info video) (frames video) [] [] of
                  None \<Rightarrow> None
                | Some (Inl (RuntimeError what)) \<Rightarrow>
                    Some \<lparr>exitCode = 1, printed = out @ [Cerr (''Error: '' @ what)],
                          files = fs, images = []\<rparr>
                | Some (Inr imgs) \<Rightarrow>
                    if imgs = [] then None
                    else
                      Some (writeOutput env opts g
                              (out @ [InputSizeLine, CompressedSizeLine, BitRateLine]) fs imgs))))"

text \<open>
  \<open>int main(int argc, const char *argv[])\<close>, run on a file system \<open>fs\<close>; \<open>None\<close> where the
  behaviour is undefined.
\<close>

definition main ::
  "('v, 'i) Environment \<Rightarrow> (string \<Rightarrow> 8 word list option) \<Rightarrow> 'v CommandLine \<Rightarrow> 'i Run option"
where
  "main env fs cl =
     (if argc cl < 3 then
        Some \<lparr>exitCode = 2, printed = [PrintUsage], files = fs, images = []\<rparr>
      else
        (case readArguments env cl initialGlobals of
           None \<Rightarrow> None
         | Some (ok, g, out) \<Rightarrow>
             if \<not> ok then
               Some \<lparr>exitCode = 2, printed = out @ [PrintUsage], files = fs, images = []\<rparr>
             else if m_inFile g = [] then
               Some \<lparr>exitCode = 1, printed = out @ [Cerr ''No input file passed. Aborting.''],
                     files = fs, images = []\<rparr>
             else if m_outFile g = [] then
               Some \<lparr>exitCode = 1, printed = out @ [Cerr ''No output file passed. Aborting.''],
                     files = fs, images = []\<rparr>
             else processVideo env (options cl) g out fs))"

text \<open>
  A command line is accepted when main gets past its argument check: \<open>argc\<close> is at least 3
  and \<open>readArguments\<close> returns true.
\<close>

definition accepted :: "('v, 'i) Environment \<Rightarrow> 'v CommandLine \<Rightarrow> bool" where
  "accepted env cl =
     (3 \<le> argc cl \<and>
      (case readArguments env cl initialGlobals of None \<Rightarrow> False | Some (ok, g, out) \<Rightarrow> ok))"

section \<open>The execution order and example runs\<close>

text \<open>
  The place of a step in the execution order that \<open>printUsage\<close> prints ("input, color
  conversion, addcolor0, movecolor0, shift, sprites, tiles, deltaimage, dxt1, delta8 /
  delta16, rle, lz10 / lz11, output"), with the pruning and padding of the colour map after
  the shift. The three input conversions share a place, and so do the two LZ variants.
\<close>

fun executionOrder :: "ProcessingType \<Rightarrow> nat" where
  "executionOrder InputBlackWhite = 0"
| "executionOrder InputPaletted = 0"
| "executionOrder InputTruecolor = 0"
| "executionOrder ReorderColors = 1"
| "executionOrder AddColor0 = 2"
| "executionOrder MoveColor0 = 3"
| "executionOrder ShiftIndices = 4"
| "executionOrder PruneIndices = 5"
| "executionOrder PadColorMap = 6"
| "executionOrder ConvertSprites = 7"
| "executionOrder ConvertTiles = 8"
| "executionOrder DeltaImage = 9"
| "executionOrder CompressDXT1 = 10"
| "executionOrder ConvertDelta8 = 11"
| "executionOrder ConvertDelta16 = 12"
| "executionOrder CompressRLE = 13"
| "executionOrder CompressLz10 = 14"
| "executionOrder CompressLz11 = 14"
| "executionOrder PadImageData = 15"

text \<open>
  The steps of \<open>p\<close> stand in strictly increasing execution order, all of them before
  place \<open>k\<close>.
\<close>

definition inOrderBelow :: "nat \<Rightarrow> 'v PipelineStep list \<Rightarrow> bool" where
  "inOrderBelow k p =
     (sorted_wrt (<) (map (\<lambda>s. executionOrder (kind s)) p) \<and>
      list_all (\<lambda>s. executionOrder (kind s) < k) p)"

text \<open>
  Example command lines, with option values that are natural numbers: no option set, an
  option that is set (with a value), and \<open>vid2h OPTIONS in.avi out\<close> for given options.
\<close>

definition noOptions :: "nat ProcessingOptions" where
  "noOptions =
     \<lparr>blackWhite = \<lparr>isSet = False, value' = 0\<rparr>,
      paletted = \<lparr>isSet = False, value' = 0\<rparr>,
      truecolor = \<lparr>isSet = False, value' = 0\<rparr>,
      addColor0 = \<lparr>isSet = False, value' = 0\<rparr>,
      moveColor0 = \<lparr>isSet = False, value' = 0\<rparr>,
      shiftIndices = \<lparr>isSet = False, value' = 0\<rparr>,
      pruneIndices = \<lparr>isSet = False\<rparr>,
      sprites = \<lparr>isSet = False, value' = []\<rparr>,
      tiles = \<lparr>isSet = False\<rparr>,
      deltaImage = \<lparr>isSet = False\<rparr>,
      delta8 = \<lparr>isSet = False\<rparr>,
      delta16 = \<lparr>isSet = False\<rparr>,
      dxt1 = \<lparr>isSet = False\<rparr>,
      rle = \<lparr>isSet = False\<rparr>,
      lz10 = \<lparr>isSet = False\<rparr>,
      lz11 = \<lparr>isSet = False\<rparr>,
      vram = \<lparr>isSet = False\<rparr>,
      dryRun = \<lparr>isSet = False\<rparr>\<rparr>"

definition on :: BoolOption where
  "on = \<lparr>isSet = True\<rparr>"

definition withValue :: "'a \<Rightarrow> 'a ValueOption" where
  "withValue v = \<lparr>isSet = True, value' = v\<rparr>"

definition commandLine :: "nat ProcessingOptions \<Rightarrow> nat CommandLine" where
  "commandLine opts =
     \<lparr>argc = 4, count_h = 0, outname = Some ''out'', infile = Some ''in.avi'',
      positional = [], options = opts\<rparr>"

text \<open>
  An example world: \<open>in.avi\<close> is the one file that exists, a video of two frames of three
  bytes each; processing a frame yields the number of frames handed over so far; every
  output file can be opened.
\<close>

definition exampleEnvironment :: "(nat, nat) Environment" where
  "exampleEnvironment =
     \<lparr>stdfs_exists = (\<lambda>f. f = ''in.avi''),
      openVideo = (\<lambda>f. if f = ''in.avi''
                        then Inr \<lparr>info = \<lparr>nrOfFrames = 2\<rparr>, frames = [[1, 2, 3], [4, 5, 6]]\<rparr>
                        else Inl (RuntimeError ''cannot open'')),
      processStream = (\<lambda>p i fs. Inr (length fs)),
      canOpen = (\<lambda>f. True)\<rparr>"

text \<open>
  An example header for the decoder: a video that declares 100000 bytes of scratch memory,
  more than the 38416 bytes of \<open>ScratchPad\<close>.
\<close>

definition exampleInfo :: Info where
  "exampleInfo =
     \<lparr>Info.nrOfFrames = 100, fps = 15, width = 240, height = 160, bitsPerPixel = 16,
      colorMapEntries = 0, bitsInColorMap = 0, maxMemoryNeeded = 100000\<rparr>"

text \<open>
  Example functions of namespace \<open>Video\<close>, with frames numbered by natural numbers:
  \<open>Video::GetInfo\<close> returns the example header, \<open>Video::GetNextFrame\<close> returns the next
  number, and \<open>Video::decode\<close> returns or not, as given.
\<close>

definition exampleCalls :: "bool \<Rightarrow> nat VideoCalls" where
  "exampleCalls decodeReturns =
     \<lparr>getInfo = Some exampleInfo,
      getNextFrame = (\<lambda>videoInfo frame. Some (Suc frame)),
      decode = (\<lambda>size videoInfo frame. decodeReturns)\<rparr>"

text \<open>The lines a run prints on \<open>std::cerr\<close>.\<close>

fun onErrorStream :: "Event \<Rightarrow> bool" where
  "onErrorStream (Cerr line) = True"
| "onErrorStream _ = False"

text \<open>The definitions an example run is evaluated with.\<close>

lemmas example_defs =
  noOptions_def on_def withValue_def commandLine_def exampleEnvironment_def initialGlobals_def formatCount_def
  accepted_def readArguments_def main_def processVideo_def writeOutput_def
  buildProcessing_def addCompressionSteps_def addSpritesStep_def addConversionSteps_def
  addInputSteps_def addStep_def

section \<open>Lemmas about the pipeline and the argument check\<close>

text \<open>Every phase of main keeps the steps in execution order.\<close>

lemma inOrderBelow_Nil: "inOrderBelow k []"
  by (simp add: inOrderBelow_def)

lemma inOrderBelow_addStep:
  "inOrderBelow k p \<Longrightarrow> k \<le> executionOrder t \<Longrightarrow> executionOrder t < k' \<Longrightarrow>
   inOrderBelow k' (addStep p t ps c)"
  by (auto simp: inOrderBelow_def addStep_def sorted_wrt_append list_all_iff)

lemma inOrderBelow_mono: "inOrderBelow k p \<Longrightarrow> k \<le> k' \<Longrightarrow> inOrderBelow k' p"
  by (auto simp: inOrderBelow_def list_all_iff)

lemma inOrderBelow_if:
  "inOrderBelow k p \<Longrightarrow> k \<le> executionOrder t \<Longrightarrow> executionOrder t < k' \<Longrightarrow>
   inOrderBelow k' (if b then addStep p t ps c else p)"
  using inOrderBelow_addStep [of k p t k' ps c] inOrderBelow_mono [of k p k'] by simp

lemma inOrderBelow_addInputSteps: "inOrderBelow 1 (addInputSteps opts [])"
  unfolding addInputSteps_def
  by (auto intro!: inOrderBelow_addStep [where k = 0] inOrderBelow_Nil)

lemma inOrderBelow_addConversionSteps:
  assumes "inOrderBelow 1 p"
  shows "inOrderBelow 7 (addConversionSteps opts p)"
proof (cases "isSet (paletted opts)")
  case False
  with assms show ?thesis
    by (simp add: addConversionSteps_def inOrderBelow_mono [of 1 p 7])
next
  case True
  have r: "inOrderBelow 2 (addStep p ReorderColors [] False)"
    using assms by (rule inOrderBelow_addStep) simp_all
  have a: "inOrderBelow 3 (if isSet (addColor0 opts)
      then addStep (addStep p ReorderColors [] False) AddColor0 [Value (value' (addColor0 opts))] False
      else addStep p ReorderColors [] False)" (is "inOrderBelow 3 ?a")
    using r by (rule inOrderBelow_if) simp_all
  have m: "inOrderBelow 4 (if isSet (moveColor0 opts)
      then addStep ?a MoveColor0 [Value (value' (moveColor0 opts))] False else ?a)"
      (is "inOrderBelow 4 ?m")
    using a by (rule inOrderBelow_if) simp_all
  have s: "inOrderBelow 5 (if isSet (shiftIndices opts)
      then addStep ?m ShiftIndices [Value (value' (shiftIndices opts))] False else ?m)"
      (is "inOrderBelow 5 ?s")
    using m by (rule inOrderBelow_if) simp_all
  have pr: "inOrderBelow 7 (addStep (addStep ?s PruneIndices [] False) PadColorMap [UInt32 16] False)"
    by (rule inOrderBelow_addStep [where k = 6], rule inOrderBelow_addStep [OF s]) simp_all
  have pa: "inOrderBelow 7 (addStep ?s PadColorMap ps False)" for ps
    using s by (rule inOrderBelow_addStep) simp_all
  show ?thesis
    unfolding addConversionSteps_def Let_def using True pr pa by simp
qed


lemma inOrderBelow_addSpritesStep:
  "inOrderBelow 7 p \<Longrightarrow> addSpritesStep opts p = Some q \<Longrightarrow> inOrderBelow 8 q"
  unfolding addSpritesStep_def
  by (auto split: if_splits list.splits
        intro: inOrderBelow_addStep [where k = 7] inOrderBelow_mono [where k = 7])

lemma inOrderBelow_addCompressionSteps:
  assumes p: "inOrderBelow 8 p" and lz: "\<not> (isSet (lz10 opts) \<and> isSet (lz11 opts))"
  shows "inOrderBelow 16 (addCompressionSteps opts p)"
proof -
  let ?t = "if isSet (tiles opts) then addStep p ConvertTiles [] False else p"
  let ?d = "if isSet (deltaImage opts) then addStep ?t DeltaImage [] False else ?t"
  let ?x = "if isSet (dxt1 opts) then addStep ?d CompressDXT1 [] True else ?d"
  let ?d8 = "if isSet (delta8 opts) then addStep ?x ConvertDelta8 [] False else ?x"
  let ?d16 = "if isSet (delta16 opts) then addStep ?d8 ConvertDelta16 [] False else ?d8"
  let ?r = "if isSet (rle opts) then addStep ?d16 CompressRLE [Bool (isSet (vram opts))] True else ?d16"
  let ?l10 = "if isSet (lz10 opts) then addStep ?r CompressLz10 [Bool (isSet (vram opts))] True else ?r"
  let ?l11 = "if isSet (lz11 opts) then addStep ?l10 CompressLz11 [Bool (isSet (vram opts))] True else ?l10"
  have t: "inOrderBelow 9 ?t" using p by (rule inOrderBelow_if) simp_all
  have d: "inOrderBelow 10 ?d" using t by (rule inOrderBelow_if) simp_all
  have x: "inOrderBelow 11 ?x" using d by (rule inOrderBelow_if) simp_all
  have d8: "inOrderBelow 12 ?d8" using x by (rule inOrderBelow_if) simp_all
  have d16: "inOrderBelow 13 ?d16" using d8 by (rule inOrderBelow_if) simp_all
  have r: "inOrderBelow 14 ?r" using d16 by (rule inOrderBelow_if) simp_all
  have l11: "inOrderBelow 15 ?l11"
  proof (cases "isSet (lz10 opts)")
    case True
    then have "?l11 = addStep ?r CompressLz10 [Bool (isSet (vram opts))] True"
      using lz by simp
    moreover have "inOrderBelow 15 (addStep ?r CompressLz10 [Bool (isSet (vram opts))] True)"
      using r by (rule inOrderBelow_addStep) simp_all
    ultimately show ?thesis by simp
  next
    case False
    then have "?l11 = (if isSet (lz11 opts) then addStep ?r CompressLz11 [Bool (isSet (vram opts))] True else ?r)"
      by simp
    moreover have "inOrderBelow 15 (if isSet (lz11 opts) then addStep ?r CompressLz11 [Bool (isSet (vram opts))] True else ?r)"
      using r by (rule inOrderBelow_if) simp_all
    ultimately show ?thesis by simp
  qed
  have "inOrderBelow 16 (addStep ?l11 PadImageData [UInt32 4] False)"
    using l11 by (rule inOrderBelow_addStep) simp_all
  then show ?thesis
    unfolding addCompressionSteps_def Let_def .
qed

lemma inOrderBelow_buildProcessing:
  assumes "buildProcessing opts = Some p" and "\<not> (isSet (lz10 opts) \<and> isSet (lz11 opts))"
  shows "inOrderBelow 16 p"
proof -
  from assms(1) obtain q where q: "addSpritesStep opts (addConversionSteps opts (addInputSteps opts [])) = Some q"
    and p: "p = addCompressionSteps opts q"
    by (auto simp: buildProcessing_def)
  have "inOrderBelow 8 q"
    using inOrderBelow_addSpritesStep [OF inOrderBelow_addConversionSteps [OF inOrderBelow_addInputSteps] q] .
  then show ?thesis
    unfolding p using assms(2) by (rule inOrderBelow_addCompressionSteps)
qed

text \<open>Each phase only appends.\<close>

lemma addStep_append: "addStep (p @ q) t ps c = p @ addStep q t ps c"
  by (simp add: addStep_def)

lemma if_append_left: "(if b then p @ x else p @ y) = p @ (if b then x else y)"
  by simp

lemma addConversionSteps_append:
  "addConversionSteps opts (p @ q) = p @ addConversionSteps opts q"
  unfolding addConversionSteps_def Let_def
  by (simp only: addStep_append if_append_left)

lemma addCompressionSteps_append:
  "addCompressionSteps opts (p @ q) = p @ addCompressionSteps opts q"
  unfolding addCompressionSteps_def Let_def
  by (simp only: addStep_append if_append_left)

lemma addSpritesStep_append:
  "addSpritesStep opts (p @ q) = map_option ((@) p) (addSpritesStep opts q)"
  unfolding addSpritesStep_def
  by (simp add: addStep_append split: list.splits)

text \<open>What an accepted command line has passed.\<close>

lemma formatCount_nonneg: "0 \<le> formatCount opts"
  by (simp add: formatCount_def)

lemma readArguments_True:
  assumes "readArguments env cl g = Some (True, g', out)"
  shows "formatCount (options cl) = 1 \<and> \<not> (isSet (lz10 (options cl)) \<and> isSet (lz11 (options cl)))
         \<and> count_h cl = 0 \<and> out = []"
  using assms formatCount_nonneg [of "options cl"]
  unfolding readArguments_def Let_def
  by (simp split: if_splits option.splits)

lemma accepted_readArguments:
  "accepted env cl \<Longrightarrow> \<exists>g out. readArguments env cl initialGlobals = Some (True, g, out)"
  unfolding accepted_def by (auto split: option.splits)

lemma accepted_formatCount: "accepted env cl \<Longrightarrow> formatCount (options cl) = 1"
  using accepted_readArguments [of env cl] readArguments_True [of env cl initialGlobals] by blast

lemma accepted_lz: "accepted env cl \<Longrightarrow> \<not> (isSet (lz10 (options cl)) \<and> isSet (lz11 (options cl)))"
  using accepted_readArguments [of env cl] readArguments_True [of env cl initialGlobals] by blast

text \<open>The pipeline is the concatenation of what the four phases add.\<close>

lemma buildProcessing_parts:
  assumes "buildProcessing opts = Some p"
  shows "\<exists>s. addSpritesStep opts [] = Some s \<and>
           p = addInputSteps opts [] @ addConversionSteps opts [] @ s @ addCompressionSteps opts []"
proof -
  let ?i = "addInputSteps opts []"
  have c: "addConversionSteps opts ?i = ?i @ addConversionSteps opts []"
    using addConversionSteps_append [of opts ?i "[]"] by simp
  from assms obtain q where q: "addSpritesStep opts (addConversionSteps opts ?i) = Some q"
    and p: "p = addCompressionSteps opts q"
    by (auto simp: buildProcessing_def)
  have "addSpritesStep opts (addConversionSteps opts ?i)
        = map_option ((@) (?i @ addConversionSteps opts [])) (addSpritesStep opts [])"
    using addSpritesStep_append [of opts "?i @ addConversionSteps opts []" "[]"] c by simp
  with q obtain s where s: "addSpritesStep opts [] = Some s"
    and qs: "q = (?i @ addConversionSteps opts []) @ s"
    by auto
  have "p = q @ addCompressionSteps opts []"
    using addCompressionSteps_append [of opts q "[]"] p by simp
  with s qs show ?thesis by simp
qed

lemma filter_addStep:
  "filter Q (addStep p t ps c) =
   filter Q p @ (if Q \<lparr>kind = t, parameters = ps, compresses = c\<rparr>
                 then [\<lparr>kind = t, parameters = ps, compresses = c\<rparr>] else [])"
  by (simp add: addStep_def)

lemma filter_if_addStep:
  "filter Q (if b then addStep p t ps c else p) =
   filter Q p @ (if b \<and> Q \<lparr>kind = t, parameters = ps, compresses = c\<rparr>
                 then [\<lparr>kind = t, parameters = ps, compresses = c\<rparr>] else [])"
  by (simp add: addStep_def)

text \<open>The places of the steps each phase adds.\<close>

lemma addInputSteps_single:
  assumes "formatCount opts = 1"
  shows "\<exists>s. addInputSteps opts [] = [s] \<and> executionOrder (kind s) = 0"
  using assms unfolding addInputSteps_def formatCount_def addStep_def
  by (auto split: if_splits)

lemma addConversionSteps_order:
  "list_all (\<lambda>s. 1 \<le> executionOrder (kind s) \<and> executionOrder (kind s) \<le> 6) (addConversionSteps opts [])"
  unfolding addConversionSteps_def Let_def addStep_def by simp

lemma addSpritesStep_order:
  "addSpritesStep opts [] = Some s \<Longrightarrow> list_all (\<lambda>s. executionOrder (kind s) = 7) s"
  unfolding addSpritesStep_def addStep_def by (auto split: if_splits list.splits)

lemma list_all_if_addStep:
  "list_all Q (if b then addStep p t ps c else p) =
   (list_all Q p \<and> (b \<longrightarrow> Q \<lparr>kind = t, parameters = ps, compresses = c\<rparr>))"
  by (auto simp: addStep_def)

lemma list_all_addStep:
  "list_all Q (addStep p t ps c) = (list_all Q p \<and> Q \<lparr>kind = t, parameters = ps, compresses = c\<rparr>)"
  by (auto simp: addStep_def)

lemma addCompressionSteps_order:
  "list_all (\<lambda>s. 8 \<le> executionOrder (kind s)) (addCompressionSteps opts [])"
  unfolding addCompressionSteps_def Let_def
  by (simp add: list_all_if_addStep list_all_addStep)

lemma addCompressionSteps_last:
  "addCompressionSteps opts p \<noteq> [] \<and> kind (last (addCompressionSteps opts p)) = PadImageData"
  unfolding addCompressionSteps_def Let_def
  by (simp add: addStep_def)

text \<open>
  The frame loop processes the frames up to the first empty one, each with the frames
  before it.
\<close>

lemma readFrames_images:
  "readFrames env p vi fs fed imgs0 = Some (Inr imgs) \<Longrightarrow>
   \<exists>new. imgs = imgs0 @ new \<and> length new = length (takeWhile (\<lambda>f. f \<noteq> []) fs) \<and>
         (\<forall>k<length new. processStream env p vi (fed @ take (Suc k) fs) = Inr (new ! k))"
proof (induction fs arbitrary: fed imgs0)
  case Nil
  then show ?case by simp
next
  case (Cons f fs)
  show ?case
  proof (cases "f = []")
    case True
    with Cons.prems show ?thesis by simp
  next
    case False
    with Cons.prems obtain img where
      img: "processStream env p vi (fed @ [f]) = Inr img" and
      nz: "nrOfFrames vi \<noteq> 0" and
      rest: "readFrames env p vi fs (fed @ [f]) (imgs0 @ [img]) = Some (Inr imgs)"
      by (auto split: sum.splits if_splits)
    from Cons.IH [OF rest] obtain new where
      new: "imgs = (imgs0 @ [img]) @ new"
        "length new = length (takeWhile (\<lambda>f. f \<noteq> []) fs)"
        "\<forall>k<length new. processStream env p vi ((fed @ [f]) @ take (Suc k) fs) = Inr (new ! k)"
      by blast
    have "\<forall>k<length (img # new). processStream env p vi (fed @ take (Suc k) (f # fs)) = Inr ((img # new) ! k)"
    proof (intro allI impI)
      fix k assume "k < length (img # new)"
      then show "processStream env p vi (fed @ take (Suc k) (f # fs)) = Inr ((img # new) ! k)"
        using img new(3) by (cases k) auto
    qed
    with new(1,2) False show ?thesis
      by (intro exI [of _ "img # new"]) simp
  qed
qed

text \<open>
  The positional loop is defined when \<open>m_inFile\<close> is not empty, so \<open>readArguments\<close> is
  defined when there are no further positional arguments or the input file is named.
\<close>

lemma positionalLoop_defined:
  "m_inFile g \<noteq> [] \<Longrightarrow> \<exists>g'. positionalLoop ps g = Some g'"
  by (induction ps arbitrary: g) auto

lemma readArguments_defined:
  assumes "positional cl = [] \<or> (\<exists>f. infile cl = Some f \<and> f \<noteq> [])"
  shows "readArguments env cl g \<noteq> None"
proof (cases "positional cl = []")
  case True
  then show ?thesis
    by (auto simp: readArguments_def Let_def)
next
  case False
  with assms obtain f where f: "infile cl = Some f" "f \<noteq> []"
    by blast
  let ?g = "(case outname cl of None \<Rightarrow> g | Some n \<Rightarrow> g\<lparr>m_outFile := n\<rparr>)\<lparr>m_inFile := f\<rparr>"
  have "m_inFile ?g \<noteq> []"
    using f(2) by simp
  from positionalLoop_defined [OF this, of "positional cl"] obtain g' where
    "positionalLoop (positional cl) ?g = Some g'"
    by blast
  with f(1) False show ?thesis
    by (auto simp: readArguments_def Let_def)
qed

text \<open>What main does with a command line that is not accepted.\<close>

lemma main_not_accepted:
  assumes "\<not> accepted env cl" and "argc cl < 3 \<or> readArguments env cl initialGlobals \<noteq> None"
  shows "\<exists>r. main env fs cl = Some r \<and> exitCode r = 2 \<and> last (printed r) = PrintUsage \<and> files r = fs"
  using assms unfolding accepted_def main_def
  by (auto split: option.splits)

lemma readArguments_formats:
  assumes "formatCount (options cl) \<noteq> 1" and "count_h cl = 0"
    and "case infile cl of None \<Rightarrow> True | Some f \<Rightarrow> stdfs_exists env f"
    and "readArguments env cl g \<noteq> None"
  shows "\<exists>g'. readArguments env cl g = Some (False, g',
            [Cerr (if formatCount (options cl) = 0 then ''One format option is needed.''
                   else ''Only a single format option is allowed.'')])"
  using assms formatCount_nonneg [of "options cl"] unfolding readArguments_def Let_def
  by (auto split: option.splits if_splits)

lemma readArguments_lz:
  assumes "isSet (lz10 (options cl))" "isSet (lz11 (options cl))"
    and "formatCount (options cl) = 1" and "count_h cl = 0"
    and "case infile cl of None \<Rightarrow> True | Some f \<Rightarrow> stdfs_exists env f"
    and "readArguments env cl g \<noteq> None"
  shows "\<exists>g'. readArguments env cl g = Some (False, g',
            [Cerr ''Only a single LZ-compression option is allowed.''])"
  using assms unfolding readArguments_def Let_def
  by (auto split: option.splits if_splits)

lemma main_rejected_output:
  assumes "3 \<le> argc cl" and "readArguments env cl initialGlobals = Some (False, g, out)"
  shows "main env fs cl = Some \<lparr>exitCode = 2, printed = out @ [PrintUsage], files = fs, images = []\<rparr>"
  using assms unfolding main_def by simp

text \<open>Which steps a filter finds in the pipeline.\<close>

lemma input_kind_order:
  "(k = InputBlackWhite \<or> k = InputPaletted \<or> k = InputTruecolor) = (executionOrder k = 0)"
  by (cases k) simp_all

lemma early_steps:
  assumes "addSpritesStep opts [] = Some s"
  shows "list_all (\<lambda>x. \<not> compresses x \<and> executionOrder (kind x) < 8)
           (addInputSteps opts [] @ addConversionSteps opts [] @ s)"
proof -
  have "list_all (\<lambda>x. \<not> compresses x \<and> executionOrder (kind x) < 8) (addInputSteps opts [])"
    unfolding addInputSteps_def addStep_def by simp
  moreover have "list_all (\<lambda>x. \<not> compresses x \<and> executionOrder (kind x) < 8) (addConversionSteps opts [])"
    unfolding addConversionSteps_def Let_def addStep_def by simp
  moreover have "list_all (\<lambda>x. \<not> compresses x \<and> executionOrder (kind x) < 8) s"
    using assms unfolding addSpritesStep_def addStep_def by (auto split: if_splits list.splits)
  ultimately show ?thesis by simp
qed

lemma filter_empty_if: "list_all (\<lambda>x. \<not> Q x) xs \<Longrightarrow> filter Q xs = []"
  by (induction xs) auto

lemma list_all_weaken: "list_all P xs \<Longrightarrow> (\<And>x. P x \<Longrightarrow> Q x) \<Longrightarrow> list_all Q xs"
  by (induction xs) auto



lemma lz_filter:
  "filter (\<lambda>s. kind s = CompressLz10 \<or> kind s = CompressLz11) (addCompressionSteps opts []) =
     (if isSet (lz10 opts) then [\<lparr>kind = CompressLz10, parameters = [Bool (isSet (vram opts))], compresses = True\<rparr>] else []) @
     (if isSet (lz11 opts) then [\<lparr>kind = CompressLz11, parameters = [Bool (isSet (vram opts))], compresses = True\<rparr>] else [])"
  unfolding addCompressionSteps_def Let_def
  by (simp add: filter_if_addStep filter_addStep)

lemma rle_filter:
  "filter (\<lambda>s. kind s = CompressRLE) (addCompressionSteps opts []) =
     (if isSet (rle opts) then [\<lparr>kind = CompressRLE, parameters = [Bool (isSet (vram opts))], compresses = True\<rparr>] else [])"
  unfolding addCompressionSteps_def Let_def
  by (simp add: filter_if_addStep filter_addStep)

lemma early_filter:
  assumes "addSpritesStep opts [] = Some s" and "\<And>x. executionOrder (kind x) < 8 \<Longrightarrow> \<not> compresses x \<Longrightarrow> \<not> Q x"
  shows "filter Q (addInputSteps opts [] @ addConversionSteps opts [] @ s) = []"
  by (rule filter_empty_if, rule list_all_weaken [OF early_steps [OF assms(1)]]) (use assms(2) in blast)

text \<open>
  The main loop of the decoder calls \<open>Video::decode\<close> once a round when the calls return.
\<close>

lemma mainLoop_decodes:
  assumes "\<And>frame. getNextFrame calls videoInfo frame \<noteq> None"
    and "\<And>frame. decode calls sizeofScratchPad videoInfo frame"
  shows "length (filter isDecode (mainLoop n calls videoInfo frame)) = n"
proof (induction n arbitrary: frame)
  case 0
  show ?case by simp
next
  case (Suc n)
  from assms(1) [of frame] obtain next_frame where
    "getNextFrame calls videoInfo frame = Some next_frame"
    by auto
  then show ?case
    using Suc.IH [of next_frame] assms(2) [of next_frame] by simp
qed

text \<open>The palette steps end with the padding of the colour map.\<close>

lemma addConversionSteps_paletted:
  assumes "isSet (paletted opts)"
  shows "\<exists>c. addConversionSteps opts [] =
               c @ (if isSet (pruneIndices opts)
                    then [\<lparr>kind = PruneIndices, parameters = [], compresses = False\<rparr>,
                          \<lparr>kind = PadColorMap, parameters = [UInt32 16], compresses = False\<rparr>]
                    else [\<lparr>kind = PadColorMap,
                           parameters = [UInt32 (value' (paletted opts) +
                                                 (if isSet (addColor0 opts) then 1 else 0))],
                           compresses = False\<rparr>]) \<and>
             list_all (\<lambda>s. executionOrder (kind s) < 5) c"
proof -
  let ?r = "addStep [] ReorderColors [] False :: 'a PipelineStep list"
  let ?a = "if isSet (addColor0 opts)
            then addStep ?r AddColor0 [Value (value' (addColor0 opts))] False else ?r"
  let ?m = "if isSet (moveColor0 opts)
            then addStep ?a MoveColor0 [Value (value' (moveColor0 opts))] False else ?a"
  let ?s = "if isSet (shiftIndices opts)
            then addStep ?m ShiftIndices [Value (value' (shiftIndices opts))] False else ?m"
  have "addConversionSteps opts [] =
          (if isSet (pruneIndices opts)
           then addStep (addStep ?s PruneIndices [] False) PadColorMap [UInt32 16] False
           else addStep ?s PadColorMap
                  [UInt32 (value' (paletted opts) + (if isSet (addColor0 opts) then 1 else 0))] False)"
    unfolding addConversionSteps_def Let_def using assms by simp
  then have "addConversionSteps opts [] =
               ?s @ (if isSet (pruneIndices opts)
                    then [\<lparr>kind = PruneIndices, parameters = [], compresses = False\<rparr>,
                          \<lparr>kind = PadColorMap, parameters = [UInt32 16], compresses = False\<rparr>]
                    else [\<lparr>kind = PadColorMap,
                           parameters = [UInt32 (value' (paletted opts) +
                                                 (if isSet (addColor0 opts) then 1 else 0))],
                           compresses = False\<rparr>])"
    by (simp add: addStep_def)
  moreover have "list_all (\<lambda>s. executionOrder (kind s) < 5) ?s"
    by (simp add: list_all_if_addStep list_all_addStep)
  ultimately show ?thesis by blast
qed

text \<open>
  The guard of line 139: a command line that selects both lz10 and lz11 is not accepted.
  main returns 2 when it returns (and it does when \<open>argc\<close> is below 3 or \<open>readArguments\<close>
  is defined), and when \<open>readArguments\<close> reaches the guard (no help option, an input file
  that exists, one format option) it prints "Only a single LZ-compression option is
  allowed." on the error stream before the usage text. So the pipeline of an accepted
  command line has at most one step among CompressLz10 and CompressLz11; it has at most
  one CompressRLE step.
\<close>

lemma lz10_lz11_exclusive:
  "(isSet (lz10 (options cl)) \<and> isSet (lz11 (options cl)) \<longrightarrow>
      \<not> accepted env cl \<and>
      (argc cl < 3 \<or> readArguments env cl initialGlobals \<noteq> None \<longrightarrow>
         (\<exists>r. main env fs cl = Some r \<and> exitCode r = 2 \<and> last (printed r) = PrintUsage \<and>
              files r = fs)) \<and>
      (3 \<le> argc cl \<and> count_h cl = 0 \<and> formatCount (options cl) = 1 \<and>
       (case infile cl of None \<Rightarrow> True | Some f \<Rightarrow> stdfs_exists env f) \<and>
       readArguments env cl initialGlobals \<noteq> None \<longrightarrow>
         main env fs cl =
           Some \<lparr>exitCode = 2,
                 printed = [Cerr ''Only a single LZ-compression option is allowed.'', PrintUsage],
                 files = fs, images = []\<rparr>)) \<and>
   (accepted env cl \<and> buildProcessing (options cl) = Some p \<longrightarrow>
      length (filter (\<lambda>s. kind s = CompressLz10 \<or> kind s = CompressLz11) p) \<le> 1 \<and>
      length (filter (\<lambda>s. kind s = CompressRLE) p) \<le> 1)"
proof (intro conjI impI)
  assume both: "isSet (lz10 (options cl)) \<and> isSet (lz11 (options cl))"
  then show na: "\<not> accepted env cl"
    using accepted_lz [of env cl] by blast
  {
    assume "argc cl < 3 \<or> readArguments env cl initialGlobals \<noteq> None"
    with na show "\<exists>r. main env fs cl = Some r \<and> exitCode r = 2 \<and>
        last (printed r) = PrintUsage \<and> files r = fs"
      by (rule main_not_accepted)
  }
  {
    assume h: "3 \<le> argc cl \<and> count_h cl = 0 \<and> formatCount (options cl) = 1 \<and>
       (case infile cl of None \<Rightarrow> True | Some f \<Rightarrow> stdfs_exists env f) \<and>
       readArguments env cl initialGlobals \<noteq> None"
    with both obtain g where
      "readArguments env cl initialGlobals =
         Some (False, g, [Cerr ''Only a single LZ-compression option is allowed.''])"
      using readArguments_lz [of cl env initialGlobals] by blast
    with h show "main env fs cl =
           Some \<lparr>exitCode = 2,
                 printed = [Cerr ''Only a single LZ-compression option is allowed.'', PrintUsage],
                 files = fs, images = []\<rparr>"
      using main_rejected_output [of cl env g _ fs] by simp
  }
next
  assume h: "accepted env cl \<and> buildProcessing (options cl) = Some p"
  from buildProcessing_parts [of "options cl" p] h obtain s where
    s: "addSpritesStep (options cl) [] = Some s" and
    p: "p = (addInputSteps (options cl) [] @ addConversionSteps (options cl) [] @ s)
            @ addCompressionSteps (options cl) []"
    by auto
  have e1: "filter (\<lambda>s. kind s = CompressLz10 \<or> kind s = CompressLz11)
              (addInputSteps (options cl) [] @ addConversionSteps (options cl) [] @ s) = []"
    using s by (rule early_filter) auto
  have e2: "filter (\<lambda>s. kind s = CompressRLE)
              (addInputSteps (options cl) [] @ addConversionSteps (options cl) [] @ s) = []"
    using s by (rule early_filter) auto
  have f1: "filter (\<lambda>s. kind s = CompressLz10 \<or> kind s = CompressLz11) p
            = filter (\<lambda>s. kind s = CompressLz10 \<or> kind s = CompressLz11)
                (addCompressionSteps (options cl) [])"
    unfolding p using e1 by simp
  have f2: "filter (\<lambda>s. kind s = CompressRLE) p
            = filter (\<lambda>s. kind s = CompressRLE) (addCompressionSteps (options cl) [])"
    unfolding p using e2 by simp
  show "length (filter (\<lambda>s. kind s = CompressLz10 \<or> kind s = CompressLz11) p) \<le> 1"
    unfolding f1 lz_filter using accepted_lz [of env cl] h by simp
  show "length (filter (\<lambda>s. kind s = CompressRLE) p) \<le> 1"
    unfolding f2 rle_filter by simp
qed

section \<open>The claims\<close>

text \<open>
  C7: the bit width is a function of the tag alone: \<open>bitsPerPixelForFormat\<close> returns
  1, 2, 4, 8, 15, 16, 24 for Paletted1, Paletted2, Paletted4, Paletted8, RGB555, RGB565,
  RGB888, and for any other tag it throws the "Bad color format" error and returns no value.
\<close>

theorem bitsPerPixelForFormat_table:
  "bitsPerPixelForFormat Paletted1 = Inr 1 \<and>
   bitsPerPixelForFormat Paletted2 = Inr 2 \<and>
   bitsPerPixelForFormat Paletted4 = Inr 4 \<and>
   bitsPerPixelForFormat Paletted8 = Inr 8 \<and>
   bitsPerPixelForFormat RGB555 = Inr 15 \<and>
   bitsPerPixelForFormat RGB565 = Inr 16 \<and>
   bitsPerPixelForFormat RGB888 = Inr 24 \<and>
   bitsPerPixelForFormat (OtherFormat n) = Inl (RuntimeError ''Bad color format'')"
  by simp

text \<open>
  C5: for every accepted command line the steps of the pipeline stand in the execution
  order, each place taken at most once: the input conversion first (place 0), then the
  palette steps (ReorderColors, AddColor0, MoveColor0, ShiftIndices, PruneIndices,
  PadColorMap), ConvertSprites, ConvertTiles, DeltaImage, CompressDXT1, ConvertDelta8,
  ConvertDelta16, CompressRLE, the LZ step, and PadImageData last.
\<close>

theorem pipeline_order:
  assumes "accepted env cl" and "buildProcessing (options cl) = Some p"
  shows "sorted_wrt (<) (map (\<lambda>s. executionOrder (kind s)) p) \<and>
         p \<noteq> [] \<and> executionOrder (kind (hd p)) = 0 \<and> kind (last p) = PadImageData"
proof -
  have "inOrderBelow 16 p"
    using assms(2) accepted_lz [OF assms(1)] by (rule inOrderBelow_buildProcessing)
  then have sorted: "sorted_wrt (<) (map (\<lambda>s. executionOrder (kind s)) p)"
    by (simp add: inOrderBelow_def)
  from buildProcessing_parts [OF assms(2)] obtain s where
    p: "p = addInputSteps (options cl) [] @ addConversionSteps (options cl) [] @ s
            @ addCompressionSteps (options cl) []"
    by blast
  from addInputSteps_single [OF accepted_formatCount [OF assms(1)]] obtain i where
    i: "addInputSteps (options cl) [] = [i]" "executionOrder (kind i) = 0"
    by blast
  have hd: "executionOrder (kind (hd p)) = 0"
    unfolding p using i by simp
  have last: "p \<noteq> [] \<and> kind (last p) = PadImageData"
    unfolding p using addCompressionSteps_last [of "options cl" "[]"] by simp
  from sorted hd last show ?thesis by simp
qed

theorem pipeline_order_witness:
  "accepted exampleEnvironment
     (commandLine (noOptions\<lparr>paletted := withValue 15, addColor0 := withValue 0,
        pruneIndices := on, tiles := on, deltaImage := on, rle := on, lz10 := on\<rparr>)) \<and>
   map kind (the (buildProcessing (options
     (commandLine (noOptions\<lparr>paletted := withValue 15, addColor0 := withValue 0,
        pruneIndices := on, tiles := on, deltaImage := on, rle := on, lz10 := on\<rparr>))))) =
     [InputPaletted, ReorderColors, AddColor0, PruneIndices, PadColorMap, ConvertTiles,
      DeltaImage, CompressRLE, CompressLz10, PadImageData] \<and>
   sorted_wrt (<) (map (\<lambda>s. executionOrder (kind s)) (the (buildProcessing (options
     (commandLine (noOptions\<lparr>paletted := withValue 15, addColor0 := withValue 0,
        pruneIndices := on, tiles := on, deltaImage := on, rle := on, lz10 := on\<rparr>))))))"
proof -
  let ?cl = "commandLine (noOptions\<lparr>paletted := withValue 15, addColor0 := withValue 0,
        pruneIndices := on, tiles := on, deltaImage := on, rle := on, lz10 := on\<rparr>)"
  let ?p = "[\<lparr>kind = InputPaletted, parameters = [ColorMapRGB555, UInt32 15], compresses = False\<rparr>,
             \<lparr>kind = ReorderColors, parameters = [], compresses = False\<rparr>,
             \<lparr>kind = AddColor0, parameters = [Value 0], compresses = False\<rparr>,
             \<lparr>kind = PruneIndices, parameters = [], compresses = False\<rparr>,
             \<lparr>kind = PadColorMap, parameters = [UInt32 16], compresses = False\<rparr>,
             \<lparr>kind = ConvertTiles, parameters = [], compresses = False\<rparr>,
             \<lparr>kind = DeltaImage, parameters = [], compresses = False\<rparr>,
             \<lparr>kind = CompressRLE, parameters = [Bool False], compresses = True\<rparr>,
             \<lparr>kind = CompressLz10, parameters = [Bool False], compresses = True\<rparr>,
             \<lparr>kind = PadImageData, parameters = [UInt32 4], compresses = False\<rparr>] :: nat PipelineStep list"
  have a: "accepted exampleEnvironment ?cl"
    by (simp add: example_defs)
  have b: "buildProcessing (options ?cl) = Some ?p"
    by (simp add: example_defs)
  from pipeline_order [OF a b] a b show ?thesis
    by simp
qed




text \<open>
  C2 fails on the code: \<open>vid2h --truecolor=... --rle --lz10 in.avi out\<close> selects two of the
  options rle, lz10 and lz11, which the usage text lists as mutually exclusive, and yet it
  is accepted (\<open>readArguments\<close> checks lz10 against lz11 only), runs to the end with exit
  code 0, and its pipeline has both a CompressRLE and a CompressLz10 step.
\<close>

theorem rle_and_lz10_accepted:
  "isSet (rle (options (commandLine (noOptions\<lparr>truecolor := withValue 555, rle := on, lz10 := on\<rparr>)))) \<and>
   isSet (lz10 (options (commandLine (noOptions\<lparr>truecolor := withValue 555, rle := on, lz10 := on\<rparr>)))) \<and>
   accepted exampleEnvironment
     (commandLine (noOptions\<lparr>truecolor := withValue 555, rle := on, lz10 := on\<rparr>)) \<and>
   map_option exitCode (main exampleEnvironment Map.empty
     (commandLine (noOptions\<lparr>truecolor := withValue 555, rle := on, lz10 := on\<rparr>))) = Some 0 \<and>
   buildProcessing (options
     (commandLine (noOptions\<lparr>truecolor := withValue 555, rle := on, lz10 := on\<rparr>))) =
     Some [\<lparr>kind = InputTruecolor, parameters = [Value 555], compresses = False\<rparr>,
           \<lparr>kind = CompressRLE, parameters = [Bool False], compresses = True\<rparr>,
           \<lparr>kind = CompressLz10, parameters = [Bool False], compresses = True\<rparr>,
           \<lparr>kind = PadImageData, parameters = [UInt32 4], compresses = False\<rparr>]"
  by (simp add: example_defs)

text \<open>
  C6: exactly one of the format options blackWhite, paletted, truecolor must be selected.
  A command line that selects none of them or more than one is not accepted: main returns
  2 after printing the usage text (it returns when \<open>argc\<close> is below 3 or \<open>readArguments\<close> is
  defined), and when \<open>readArguments\<close> reaches the check (no help option, an input file
  that exists) it prints "One format option is needed." or "Only a single format option is
  allowed." on the error stream before that. The pipeline of an accepted command line has
  exactly one input conversion step.
\<close>

theorem format_option_required:
  "(formatCount (options cl) \<noteq> 1 \<longrightarrow>
      \<not> accepted env cl \<and>
      (argc cl < 3 \<or> readArguments env cl initialGlobals \<noteq> None \<longrightarrow>
         (\<exists>r. main env fs cl = Some r \<and> exitCode r = 2 \<and> last (printed r) = PrintUsage \<and>
              files r = fs)) \<and>
      (3 \<le> argc cl \<and> count_h cl = 0 \<and>
       (case infile cl of None \<Rightarrow> True | Some f \<Rightarrow> stdfs_exists env f) \<and>
       readArguments env cl initialGlobals \<noteq> None \<longrightarrow>
         main env fs cl =
           Some \<lparr>exitCode = 2,
                 printed = [Cerr (if formatCount (options cl) = 0
                                  then ''One format option is needed.''
                                  else ''Only a single format option is allowed.''),
                            PrintUsage],
                 files = fs, images = []\<rparr>)) \<and>
   (accepted env cl \<and> buildProcessing (options cl) = Some p \<longrightarrow>
      length (filter (\<lambda>s. kind s = InputBlackWhite \<or> kind s = InputPaletted \<or>
                          kind s = InputTruecolor) p) = 1)"
proof (intro conjI impI)
  assume ne: "formatCount (options cl) \<noteq> 1"
  then show na: "\<not> accepted env cl"
    using accepted_formatCount [of env cl] by blast
  {
    assume "argc cl < 3 \<or> readArguments env cl initialGlobals \<noteq> None"
    with na show "\<exists>r. main env fs cl = Some r \<and> exitCode r = 2 \<and>
        last (printed r) = PrintUsage \<and> files r = fs"
      by (rule main_not_accepted)
  }
  {
    assume h: "3 \<le> argc cl \<and> count_h cl = 0 \<and>
       (case infile cl of None \<Rightarrow> True | Some f \<Rightarrow> stdfs_exists env f) \<and>
       readArguments env cl initialGlobals \<noteq> None"
    with ne obtain g where
      "readArguments env cl initialGlobals =
         Some (False, g, [Cerr (if formatCount (options cl) = 0
                                 then ''One format option is needed.''
                                 else ''Only a single format option is allowed.'')])"
      using readArguments_formats [of cl env initialGlobals] by blast
    with h show "main env fs cl =
           Some \<lparr>exitCode = 2,
                 printed = [Cerr (if formatCount (options cl) = 0
                                  then ''One format option is needed.''
                                  else ''Only a single format option is allowed.''),
                            PrintUsage],
                 files = fs, images = []\<rparr>"
      using main_rejected_output [of cl env g _ fs] by simp
  }
next
  assume h: "accepted env cl \<and> buildProcessing (options cl) = Some p"
  from buildProcessing_parts [of "options cl" p] h obtain s where
    s: "addSpritesStep (options cl) [] = Some s" and
    p: "p = addInputSteps (options cl) [] @ addConversionSteps (options cl) [] @ s
            @ addCompressionSteps (options cl) []"
    by auto
  from addInputSteps_single [OF accepted_formatCount [of env cl]] h obtain i where
    i: "addInputSteps (options cl) [] = [i]" "executionOrder (kind i) = 0"
    by blast
  have c: "filter (\<lambda>s. executionOrder (kind s) = 0) (addConversionSteps (options cl) []) = []"
    by (rule filter_empty_if, rule list_all_weaken [OF addConversionSteps_order]) simp
  have sp: "filter (\<lambda>s. executionOrder (kind s) = 0) s = []"
    by (rule filter_empty_if, rule list_all_weaken [OF addSpritesStep_order [OF s]]) simp
  have co: "filter (\<lambda>s. executionOrder (kind s) = 0) (addCompressionSteps (options cl) []) = []"
    by (rule filter_empty_if, rule list_all_weaken [OF addCompressionSteps_order]) simp
  show "length (filter (\<lambda>s. kind s = InputBlackWhite \<or> kind s = InputPaletted \<or>
                          kind s = InputTruecolor) p) = 1"
    unfolding input_kind_order p using i c sp co by simp
qed

theorem format_option_required_witness:
  "formatCount (options (commandLine noOptions)) = 0 \<and>
   \<not> accepted exampleEnvironment (commandLine noOptions) \<and>
   main exampleEnvironment Map.empty (commandLine noOptions) =
     Some \<lparr>exitCode = 2, printed = [Cerr ''One format option is needed.'', PrintUsage],
           files = Map.empty, images = []\<rparr> \<and>
   formatCount (options (commandLine (noOptions\<lparr>blackWhite := withValue 1, truecolor := withValue 555\<rparr>))) = 2 \<and>
   main exampleEnvironment Map.empty
       (commandLine (noOptions\<lparr>blackWhite := withValue 1, truecolor := withValue 555\<rparr>)) =
     Some \<lparr>exitCode = 2, printed = [Cerr ''Only a single format option is allowed.'', PrintUsage],
           files = Map.empty, images = []\<rparr> \<and>
   accepted exampleEnvironment (commandLine (noOptions\<lparr>paletted := withValue 16\<rparr>)) \<and>
   buildProcessing (options (commandLine (noOptions\<lparr>paletted := withValue 16\<rparr>))) =
     Some [\<lparr>kind = InputPaletted, parameters = [ColorMapRGB555, UInt32 16], compresses = False\<rparr>,
           \<lparr>kind = ReorderColors, parameters = [], compresses = False\<rparr>,
           \<lparr>kind = PadColorMap, parameters = [UInt32 16], compresses = False\<rparr>,
           \<lparr>kind = PadImageData, parameters = [UInt32 4], compresses = False\<rparr>] \<and>
   length (filter (\<lambda>s. kind s = InputBlackWhite \<or> kind s = InputPaletted \<or> kind s = InputTruecolor)
     [\<lparr>kind = InputPaletted, parameters = [ColorMapRGB555, UInt32 16 :: nat Parameter], compresses = False\<rparr>,
      \<lparr>kind = ReorderColors, parameters = [], compresses = False\<rparr>,
      \<lparr>kind = PadColorMap, parameters = [UInt32 16], compresses = False\<rparr>,
      \<lparr>kind = PadImageData, parameters = [UInt32 4], compresses = False\<rparr>]) = 1"
proof -
  let ?n = "commandLine noOptions"
  let ?m = "commandLine (noOptions\<lparr>blackWhite := withValue 1, truecolor := withValue 555\<rparr>)"
  let ?a = "commandLine (noOptions\<lparr>paletted := withValue 16\<rparr>)"
  let ?p = "[\<lparr>kind = InputPaletted, parameters = [ColorMapRGB555, UInt32 16], compresses = False\<rparr>,
             \<lparr>kind = ReorderColors, parameters = [], compresses = False\<rparr>,
             \<lparr>kind = PadColorMap, parameters = [UInt32 16], compresses = False\<rparr>,
             \<lparr>kind = PadImageData, parameters = [UInt32 4], compresses = False\<rparr>] :: nat PipelineStep list"
  have n1: "formatCount (options ?n) = 0"
    by (simp add: example_defs)
  have n2: "3 \<le> argc ?n \<and> count_h ?n = 0 \<and>
       (case infile ?n of None \<Rightarrow> True | Some f \<Rightarrow> stdfs_exists exampleEnvironment f) \<and>
       readArguments exampleEnvironment ?n initialGlobals \<noteq> None"
    by (simp add: example_defs)
  have m1: "formatCount (options ?m) = 2"
    by (simp add: example_defs)
  have m2: "3 \<le> argc ?m \<and> count_h ?m = 0 \<and>
       (case infile ?m of None \<Rightarrow> True | Some f \<Rightarrow> stdfs_exists exampleEnvironment f) \<and>
       readArguments exampleEnvironment ?m initialGlobals \<noteq> None"
    by (simp add: example_defs)
  have a1: "accepted exampleEnvironment ?a \<and> buildProcessing (options ?a) = Some ?p"
    by (simp add: example_defs)
  from format_option_required [of ?n exampleEnvironment Map.empty] n1 n2
  have n3: "\<not> accepted exampleEnvironment ?n"
    and n4: "main exampleEnvironment Map.empty ?n =
     Some \<lparr>exitCode = 2, printed = [Cerr ''One format option is needed.'', PrintUsage],
           files = Map.empty, images = []\<rparr>"
    by simp_all
  from format_option_required [of ?m exampleEnvironment Map.empty] m1 m2
  have m4: "main exampleEnvironment Map.empty ?m =
     Some \<lparr>exitCode = 2, printed = [Cerr ''Only a single format option is allowed.'', PrintUsage],
           files = Map.empty, images = []\<rparr>"
    by simp
  from format_option_required [of ?a exampleEnvironment _ ?p] a1
  have a2: "length (filter (\<lambda>s. kind s = InputBlackWhite \<or> kind s = InputPaletted \<or>
                          kind s = InputTruecolor) ?p) = 1"
    by blast
  from n1 n3 n4 m1 m4 a1 a2 show ?thesis
    by blast
qed

text \<open>
  C8: the pipeline of an accepted paletted command line holds, when pruneIndices is set, a
  PruneIndices step with the step PadColorMap(16) right after it, and otherwise a
  PadColorMap step for the palette size, plus one if addColor0 is set (a \<open>uint32_t\<close> sum);
  no other step of the pipeline prunes or pads the colour map.
\<close>

theorem colorMap_padding:
  assumes "accepted env cl" and "isSet (paletted (options cl))"
    and "buildProcessing (options cl) = Some p"
  shows "\<exists>before after.
           p = before @
               (if isSet (pruneIndices (options cl))
                then [\<lparr>kind = PruneIndices, parameters = [], compresses = False\<rparr>,
                      \<lparr>kind = PadColorMap, parameters = [UInt32 16], compresses = False\<rparr>]
                else [\<lparr>kind = PadColorMap,
                       parameters = [UInt32 (value' (paletted (options cl)) +
                                             (if isSet (addColor0 (options cl)) then 1 else 0))],
                       compresses = False\<rparr>]) @ after \<and>
           list_all (\<lambda>s. kind s \<noteq> PruneIndices \<and> kind s \<noteq> PadColorMap) (before @ after)"
proof -
  let ?o = "options cl"
  from buildProcessing_parts [OF assms(3)] obtain s where
    s: "addSpritesStep ?o [] = Some s" and
    p: "p = addInputSteps ?o [] @ addConversionSteps ?o [] @ s @ addCompressionSteps ?o []"
    by auto
  from addInputSteps_single [OF accepted_formatCount [OF assms(1)]] obtain i where
    i: "addInputSteps ?o [] = [i]" "executionOrder (kind i) = 0"
    by blast
  from addConversionSteps_paletted [OF assms(2)] obtain c where
    c: "addConversionSteps ?o [] =
               c @ (if isSet (pruneIndices ?o)
                    then [\<lparr>kind = PruneIndices, parameters = [], compresses = False\<rparr>,
                          \<lparr>kind = PadColorMap, parameters = [UInt32 16], compresses = False\<rparr>]
                    else [\<lparr>kind = PadColorMap,
                           parameters = [UInt32 (value' (paletted ?o) +
                                                 (if isSet (addColor0 ?o) then 1 else 0))],
                           compresses = False\<rparr>])"
    and c5: "list_all (\<lambda>s. executionOrder (kind s) < 5) c"
    by blast
  have ni: "kind i \<noteq> PruneIndices \<and> kind i \<noteq> PadColorMap"
    using i(2) by auto
  have nc: "list_all (\<lambda>s. kind s \<noteq> PruneIndices \<and> kind s \<noteq> PadColorMap) c"
    by (rule list_all_weaken [OF c5]) auto
  have ns: "list_all (\<lambda>s. kind s \<noteq> PruneIndices \<and> kind s \<noteq> PadColorMap) s"
    by (rule list_all_weaken [OF addSpritesStep_order [OF s]]) auto
  have nk: "list_all (\<lambda>s. kind s \<noteq> PruneIndices \<and> kind s \<noteq> PadColorMap)
              (addCompressionSteps ?o [])"
    by (rule list_all_weaken [OF addCompressionSteps_order]) auto
  show ?thesis
    by (intro exI [of _ "i # c"] exI [of _ "s @ addCompressionSteps ?o []"])
       (simp add: p i(1) c ni nc ns nk)
qed

theorem colorMap_padding_witness:
  "accepted exampleEnvironment
     (commandLine (noOptions\<lparr>paletted := withValue 15, addColor0 := withValue 0, pruneIndices := on\<rparr>)) \<and>
   buildProcessing (options
     (commandLine (noOptions\<lparr>paletted := withValue 15, addColor0 := withValue 0, pruneIndices := on\<rparr>))) =
     Some ([\<lparr>kind = InputPaletted, parameters = [ColorMapRGB555, UInt32 15], compresses = False\<rparr>,
            \<lparr>kind = ReorderColors, parameters = [], compresses = False\<rparr>,
            \<lparr>kind = AddColor0, parameters = [Value 0], compresses = False\<rparr>] @
           [\<lparr>kind = PruneIndices, parameters = [], compresses = False\<rparr>,
            \<lparr>kind = PadColorMap, parameters = [UInt32 16], compresses = False\<rparr>] @
           [\<lparr>kind = PadImageData, parameters = [UInt32 4], compresses = False\<rparr>]) \<and>
   accepted exampleEnvironment
     (commandLine (noOptions\<lparr>paletted := withValue 15, addColor0 := withValue 0\<rparr>)) \<and>
   buildProcessing (options
     (commandLine (noOptions\<lparr>paletted := withValue 15, addColor0 := withValue 0\<rparr>))) =
     Some ([\<lparr>kind = InputPaletted, parameters = [ColorMapRGB555, UInt32 15], compresses = False\<rparr>,
            \<lparr>kind = ReorderColors, parameters = [], compresses = False\<rparr>,
            \<lparr>kind = AddColor0, parameters = [Value 0], compresses = False\<rparr>] @
           [\<lparr>kind = PadColorMap, parameters = [UInt32 (15 + 1)], compresses = False\<rparr>] @
           [\<lparr>kind = PadImageData, parameters = [UInt32 4], compresses = False\<rparr>]) \<and>
   (\<exists>before after.
      the (buildProcessing (options
        (commandLine (noOptions\<lparr>paletted := withValue 15, addColor0 := withValue 0, pruneIndices := on\<rparr>)))) =
        before @ [\<lparr>kind = PruneIndices, parameters = [], compresses = False\<rparr>,
                  \<lparr>kind = PadColorMap, parameters = [UInt32 16], compresses = False\<rparr>] @ after)"
proof -
  let ?c = "commandLine (noOptions\<lparr>paletted := withValue 15, addColor0 := withValue 0, pruneIndices := on\<rparr>)"
  let ?d = "commandLine (noOptions\<lparr>paletted := withValue 15, addColor0 := withValue 0\<rparr>)"
  let ?p = "[\<lparr>kind = InputPaletted, parameters = [ColorMapRGB555, UInt32 15], compresses = False\<rparr>,
             \<lparr>kind = ReorderColors, parameters = [], compresses = False\<rparr>,
             \<lparr>kind = AddColor0, parameters = [Value 0], compresses = False\<rparr>,
             \<lparr>kind = PruneIndices, parameters = [], compresses = False\<rparr>,
             \<lparr>kind = PadColorMap, parameters = [UInt32 16], compresses = False\<rparr>,
             \<lparr>kind = PadImageData, parameters = [UInt32 4], compresses = False\<rparr>] :: nat PipelineStep list"
  have c1: "accepted exampleEnvironment ?c"
    by (simp add: example_defs)
  have c2: "isSet (paletted (options ?c))" "isSet (pruneIndices (options ?c))"
    by (simp_all add: example_defs)
  have c3: "buildProcessing (options ?c) = Some ?p"
    by (simp add: example_defs)
  have d1: "accepted exampleEnvironment ?d"
    by (simp add: example_defs)
  have d3: "buildProcessing (options ?d) =
     Some [\<lparr>kind = InputPaletted, parameters = [ColorMapRGB555, UInt32 15], compresses = False\<rparr>,
           \<lparr>kind = ReorderColors, parameters = [], compresses = False\<rparr>,
           \<lparr>kind = AddColor0, parameters = [Value 0], compresses = False\<rparr>,
           \<lparr>kind = PadColorMap, parameters = [UInt32 16], compresses = False\<rparr>,
           \<lparr>kind = PadImageData, parameters = [UInt32 4], compresses = False\<rparr>]"
    by (simp add: example_defs)
  from colorMap_padding [OF c1 c2(1) c3] c2(2) obtain before after where
    "?p = before @ [\<lparr>kind = PruneIndices, parameters = [], compresses = False\<rparr>,
                    \<lparr>kind = PadColorMap, parameters = [UInt32 16], compresses = False\<rparr>] @ after"
    by auto
  then have "\<exists>before after. the (buildProcessing (options ?c)) =
        before @ [\<lparr>kind = PruneIndices, parameters = [], compresses = False\<rparr>,
                  \<lparr>kind = PadColorMap, parameters = [UInt32 16], compresses = False\<rparr>] @ after"
    unfolding c3 option.sel by blast
  with c1 c3 d1 d3 show ?thesis
    by simp
qed

text \<open>
  C10: with the dryRun option set no run changes the file system: no output file is opened
  or written. A dry run whose command line is accepted, whose video opens and whose frames
  are processed without an exception processes every frame up to the first empty one, each
  through the pipeline built, prints the three statistics lines and "Done", and returns 0.
\<close>

theorem dryRun_leaves_files:
  assumes "isSet (dryRun (options cl))"
  shows "(\<forall>r. main env fs cl = Some r \<longrightarrow> files r = fs) \<and>
         (\<forall>g video p imgs.
            3 \<le> argc cl \<and> readArguments env cl initialGlobals = Some (True, g, []) \<and>
            m_inFile g \<noteq> [] \<and> m_outFile g \<noteq> [] \<and>
            openVideo env (m_inFile g) = Inr video \<and>
            buildProcessing (options cl) = Some p \<and>
            readFrames env p (info video) (frames video) [] [] = Some (Inr imgs) \<and> imgs \<noteq> [] \<longrightarrow>
            main env fs cl =
              Some \<lparr>exitCode = 0,
                    printed = [Cout (''Opening '' @ m_inFile g @ ''...''), VideoStreamLine,
                               ApplyingProcessingLine, InputSizeLine, CompressedSizeLine,
                               BitRateLine, Cout ''Done''],
                    files = fs, images = imgs\<rparr> \<and>
            length imgs = length (takeWhile (\<lambda>f. f \<noteq> []) (frames video)) \<and>
            (\<forall>k<length imgs.
               processStream env p (info video) (take (Suc k) (frames video)) = Inr (imgs ! k)))"
proof (intro conjI allI impI)
  fix r
  assume "main env fs cl = Some r"
  then show "files r = fs"
    using assms unfolding main_def processVideo_def writeOutput_def Let_def
    by (auto split: if_splits option.splits sum.splits runtime_error.splits)
next
  fix g video p imgs
  assume h: "3 \<le> argc cl \<and> readArguments env cl initialGlobals = Some (True, g, []) \<and>
            m_inFile g \<noteq> [] \<and> m_outFile g \<noteq> [] \<and>
            openVideo env (m_inFile g) = Inr video \<and>
            buildProcessing (options cl) = Some p \<and>
            readFrames env p (info video) (frames video) [] [] = Some (Inr imgs) \<and> imgs \<noteq> []"
  then show "main env fs cl =
              Some \<lparr>exitCode = 0,
                    printed = [Cout (''Opening '' @ m_inFile g @ ''...''), VideoStreamLine,
                               ApplyingProcessingLine, InputSizeLine, CompressedSizeLine,
                               BitRateLine, Cout ''Done''],
                    files = fs, images = imgs\<rparr>"
    using assms unfolding main_def processVideo_def writeOutput_def Let_def by simp
  from h readFrames_images [of env p "info video" "frames video" "[]" "[]" imgs]
  obtain new where new: "imgs = new" "length new = length (takeWhile (\<lambda>f. f \<noteq> []) (frames video))"
    "\<forall>k<length new. processStream env p (info video) (take (Suc k) (frames video)) = Inr (new ! k)"
    by auto
  from new show "length imgs = length (takeWhile (\<lambda>f. f \<noteq> []) (frames video))"
    by simp
  fix k
  assume "k < length imgs"
  with new show "processStream env p (info video) (take (Suc k) (frames video)) = Inr (imgs ! k)"
    by simp
qed

theorem dryRun_leaves_files_witness:
  "isSet (dryRun (options (commandLine (noOptions\<lparr>truecolor := withValue 555, dryRun := on\<rparr>)))) \<and>
   main exampleEnvironment Map.empty
       (commandLine (noOptions\<lparr>truecolor := withValue 555, dryRun := on\<rparr>)) =
     Some \<lparr>exitCode = 0,
           printed = [Cout ''Opening in.avi...'', VideoStreamLine, ApplyingProcessingLine,
                      InputSizeLine, CompressedSizeLine, BitRateLine, Cout ''Done''],
           files = Map.empty, images = [1, 2]\<rparr> \<and>
   length [1, 2 :: nat] = length (takeWhile (\<lambda>f. f \<noteq> []) [[1, 2, 3], [4, 5, 6 :: 8 word]])"
proof -
  let ?cl = "commandLine (noOptions\<lparr>truecolor := withValue 555, dryRun := on\<rparr>)"
  let ?g = "\<lparr>m_inFile = ''in.avi'', m_outFile = ''out''\<rparr>"
  let ?v = "\<lparr>info = \<lparr>nrOfFrames = 2\<rparr>, frames = [[1, 2, 3], [4, 5, 6]]\<rparr>"
  let ?p = "[\<lparr>kind = InputTruecolor, parameters = [Value 555], compresses = False\<rparr>,
             \<lparr>kind = PadImageData, parameters = [UInt32 4], compresses = False\<rparr>] :: nat PipelineStep list"
  have d: "isSet (dryRun (options ?cl))"
    by (simp add: example_defs)
  have h: "3 \<le> argc ?cl \<and> readArguments exampleEnvironment ?cl initialGlobals = Some (True, ?g, []) \<and>
            m_inFile ?g \<noteq> [] \<and> m_outFile ?g \<noteq> [] \<and>
            openVideo exampleEnvironment (m_inFile ?g) = Inr ?v \<and>
            buildProcessing (options ?cl) = Some ?p \<and>
            readFrames exampleEnvironment ?p (info ?v) (frames ?v) [] [] = Some (Inr [1, 2]) \<and>
            [1, 2 :: nat] \<noteq> []"
    by (simp add: example_defs)
  from dryRun_leaves_files [OF d, of exampleEnvironment Map.empty] h
  have "main exampleEnvironment Map.empty ?cl =
     Some \<lparr>exitCode = 0,
           printed = [Cout (''Opening '' @ m_inFile ?g @ ''...''), VideoStreamLine, ApplyingProcessingLine,
                      InputSizeLine, CompressedSizeLine, BitRateLine, Cout ''Done''],
           files = Map.empty, images = [1, 2]\<rparr> \<and>
     length [1, 2 :: nat] = length (takeWhile (\<lambda>f. f \<noteq> []) (frames ?v))"
    by blast
  with d show ?thesis
    by simp
qed

text \<open>
  C1 fails on the code: \<open>vid2h --truecolor=... in.avi out\<close>, not a dry run, is accepted and
  both frames of the video are processed; main opens \<open>out.bin\<close>, prints "Writing output file
  out.bin" and "Done" and returns 0, and \<open>out.bin\<close> is left empty: no header, no frame
  offsets, no frame data (the write is the \<open>// TODO\<close> of lines 357-358).
\<close>

theorem output_file_left_empty:
  "\<not> isSet (dryRun (options (commandLine (noOptions\<lparr>truecolor := withValue 555\<rparr>)))) \<and>
   accepted exampleEnvironment (commandLine (noOptions\<lparr>truecolor := withValue 555\<rparr>)) \<and>
   main exampleEnvironment Map.empty (commandLine (noOptions\<lparr>truecolor := withValue 555\<rparr>)) =
     Some \<lparr>exitCode = 0,
           printed = [Cout ''Opening in.avi...'', VideoStreamLine, ApplyingProcessingLine,
                      InputSizeLine, CompressedSizeLine, BitRateLine,
                      Cout ''Writing output file out.bin'', Cout ''Done''],
           files = [''out.bin'' \<mapsto> []],
           images = [1, 2]\<rparr>"
  by (simp add: example_defs)

text \<open>
  C9 fails on the code for an input file that does not exist:
  \<open>vid2h --truecolor=... missing.avi out\<close> returns 2, but its diagnostic, "Input file
  "missing.avi" does not exist!", and the usage text go to \<open>std::cout\<close>; nothing is printed
  on \<open>std::cerr\<close>.
\<close>

theorem missing_input_file_diagnostic:
  "main exampleEnvironment Map.empty
     ((commandLine (noOptions\<lparr>truecolor := withValue 555\<rparr>))\<lparr>infile := Some ''missing.avi''\<rparr>) =
     Some \<lparr>exitCode = 2,
           printed = [Cout (''Input file '' @ [CHR 0x22] @ ''missing.avi'' @ [CHR 0x22] @
                            '' does not exist!''),
                      PrintUsage],
           files = Map.empty, images = []\<rparr> \<and>
   filter onErrorStream
     [Cout (''Input file '' @ [CHR 0x22] @ ''missing.avi'' @ [CHR 0x22] @ '' does not exist!''),
      PrintUsage] = []"
  by (simp add: example_defs)

text \<open>
  C3, as the code has it: main of the decoder displays \<open>maxMemoryNeeded\<close> and does not
  compare it with the scratch pad. For every header that \<open>Video::GetInfo\<close> returns (with
  \<open>fps\<close> not 0), main prints the field with "Memory needed: %d", and once key A is pressed
  and \<open>Video::GetNextFrame\<close> has returned the first frame it calls \<open>Video::decode\<close> for that
  frame, with the header and the 38416 bytes of \<open>ScratchPad\<close>; it goes on with the next
  round when that call returns. As long as the calls return, \<open>n\<close> rounds of the loop call
  \<open>Video::decode\<close> \<open>n\<close> times.
\<close>

theorem decoder_calls_decode_for_every_header:
  assumes "getInfo calls = Some videoInfo" and "waitForKeyA keys = Some k"
    and "fps videoInfo \<noteq> 0" and "getNextFrame calls videoInfo frame0 = Some frame"
  shows "decoderMain (Suc n) calls frame0 keys =
           Some ([Setup, GetInfo,
                  TuiPrintf 0 0 ''Frames: %d, Fps: %d'' [Info.nrOfFrames videoInfo, fps videoInfo],
                  TuiPrintf 0 1 ''Size: %dx%d'' [width videoInfo, height videoInfo],
                  TuiPrintf 0 2 ''Bits / pixel: %d'' [bitsPerPixel videoInfo],
                  TuiPrintf 0 3 ''Colors in colormap: %d'' [colorMapEntries videoInfo],
                  TuiPrintf 0 4 ''Bits / color: %d'' [bitsInColorMap videoInfo],
                  TuiPrintf 0 5 ''Memory needed: %d'' [maxMemoryNeeded videoInfo]]
                 @ replicate k ScanKeys
                 @ [VideoMode, Timer3 (ucast (65536 - 65536 div fps videoInfo)),
                    GetNextFrame videoInfo frame0, Decode 38416 videoInfo frame]
                 @ (if decode calls 38416 videoInfo frame
                    then DebugPrintf # mainLoop n calls videoInfo frame else [])) \<and>
         ((\<forall>f. getNextFrame calls videoInfo f \<noteq> None) \<and> (\<forall>f. decode calls 38416 videoInfo f) \<longrightarrow>
            (\<exists>events. decoderMain n calls frame0 keys = Some events \<and>
                      length (filter isDecode events) = n))"
proof -
  have size: "sizeofScratchPad = 38416"
    by (simp add: sizeofScratchPad_def)
  have first: "decoderMain (Suc n) calls frame0 keys =
           Some ([Setup, GetInfo,
                  TuiPrintf 0 0 ''Frames: %d, Fps: %d'' [Info.nrOfFrames videoInfo, fps videoInfo],
                  TuiPrintf 0 1 ''Size: %dx%d'' [width videoInfo, height videoInfo],
                  TuiPrintf 0 2 ''Bits / pixel: %d'' [bitsPerPixel videoInfo],
                  TuiPrintf 0 3 ''Colors in colormap: %d'' [colorMapEntries videoInfo],
                  TuiPrintf 0 4 ''Bits / color: %d'' [bitsInColorMap videoInfo],
                  TuiPrintf 0 5 ''Memory needed: %d'' [maxMemoryNeeded videoInfo]]
                 @ replicate k ScanKeys
                 @ [VideoMode, Timer3 (ucast (65536 - 65536 div fps videoInfo)),
                    GetNextFrame videoInfo frame0, Decode 38416 videoInfo frame]
                 @ (if decode calls 38416 videoInfo frame
                    then DebugPrintf # mainLoop n calls videoInfo frame else []))"
    using assms unfolding decoderMain_def Let_def by (simp add: size)
  have rounds: "\<exists>events. decoderMain n calls frame0 keys = Some events \<and>
                      length (filter isDecode events) = n"
    if "(\<forall>f. getNextFrame calls videoInfo f \<noteq> None) \<and> (\<forall>f. decode calls 38416 videoInfo f)"
  proof -
    have "length (filter isDecode (mainLoop n calls videoInfo frame0)) = n"
      using that by (intro mainLoop_decodes) (simp_all add: size)
    then show ?thesis
      using assms(1-3) unfolding decoderMain_def Let_def by simp
  qed
  from first rounds show ?thesis
    by blast
qed

theorem decoder_calls_decode_for_every_header_witness:
  "getInfo (exampleCalls True) = Some exampleInfo \<and> waitForKeyA [False, True] = Some 2 \<and>
   fps exampleInfo \<noteq> 0 \<and> getNextFrame (exampleCalls True) exampleInfo 0 = Some 1 \<and>
   decoderMain 2 (exampleCalls True) 0 [False, True] =
     Some [Setup, GetInfo,
           TuiPrintf 0 0 ''Frames: %d, Fps: %d'' [100, 15],
           TuiPrintf 0 1 ''Size: %dx%d'' [240, 160],
           TuiPrintf 0 2 ''Bits / pixel: %d'' [16],
           TuiPrintf 0 3 ''Colors in colormap: %d'' [0],
           TuiPrintf 0 4 ''Bits / color: %d'' [0],
           TuiPrintf 0 5 ''Memory needed: %d'' [100000],
           ScanKeys, ScanKeys, VideoMode, Timer3 61167,
           GetNextFrame exampleInfo 0, Decode 38416 exampleInfo 1, DebugPrintf,
           GetNextFrame exampleInfo 1, Decode 38416 exampleInfo 2, DebugPrintf] \<and>
   (\<exists>events. decoderMain 2 (exampleCalls True) 0 [False, True] = Some events \<and>
             length (filter isDecode events) = 2)"
proof -
  have i: "getInfo (exampleCalls True) = Some exampleInfo"
    by (simp add: exampleCalls_def)
  have k: "waitForKeyA [False, True] = Some 2"
    by simp
  have f: "fps exampleInfo \<noteq> 0"
    by (simp add: exampleInfo_def)
  have g: "getNextFrame (exampleCalls True) exampleInfo 0 = Some 1"
    by (simp add: exampleCalls_def)
  have r: "(\<forall>f. getNextFrame (exampleCalls True) exampleInfo f \<noteq> None) \<and>
           (\<forall>f. decode (exampleCalls True) 38416 exampleInfo f)"
    by (simp add: exampleCalls_def)
  have t: "ucast (65536 - 65536 div (15 :: 32 word)) = (61167 :: 16 word)"
    by simp
  have k2: "waitForKeyA [False, True] = Some (Suc (Suc 0))"
    by simp
  have e: "decoderMain 2 (exampleCalls True) 0 [False, True] =
     Some [Setup, GetInfo,
           TuiPrintf 0 0 ''Frames: %d, Fps: %d'' [100, 15],
           TuiPrintf 0 1 ''Size: %dx%d'' [240, 160],
           TuiPrintf 0 2 ''Bits / pixel: %d'' [16],
           TuiPrintf 0 3 ''Colors in colormap: %d'' [0],
           TuiPrintf 0 4 ''Bits / color: %d'' [0],
           TuiPrintf 0 5 ''Memory needed: %d'' [100000],
           ScanKeys, ScanKeys, VideoMode, Timer3 61167,
           GetNextFrame exampleInfo 0, Decode 38416 exampleInfo 1, DebugPrintf,
           GetNextFrame exampleInfo 1, Decode 38416 exampleInfo 2, DebugPrintf]"
    unfolding decoderMain_def Let_def k2 Suc_1 [symmetric] One_nat_def
    by (simp add: exampleCalls_def exampleInfo_def sizeofScratchPad_def t)
  from decoder_calls_decode_for_every_header [OF i k f g, of 2] r
  have "\<exists>events. decoderMain 2 (exampleCalls True) 0 [False, True] = Some events \<and>
             length (filter isDecode events) = 2"
    by blast
  with i k f g e show ?thesis
    by blast
qed

text \<open>
  C3 as stated fails: for a header that declares 100000 bytes of scratch memory, more than
  the 38416 bytes reserved, main prints the number, waits for key A and calls
  \<open>Video::decode\<close> for the first frame, with no check before the call and no fatal error
  of its own; this is so even when that call of \<open>Video::decode\<close> never returns.
\<close>

theorem oversized_header_reaches_decode:
  "sizeofScratchPad < unat (maxMemoryNeeded exampleInfo) \<and>
   decoderMain 1 (exampleCalls False) 0 [False, True] =
     Some [Setup, GetInfo,
           TuiPrintf 0 0 ''Frames: %d, Fps: %d'' [100, 15],
           TuiPrintf 0 1 ''Size: %dx%d'' [240, 160],
           TuiPrintf 0 2 ''Bits / pixel: %d'' [16],
           TuiPrintf 0 3 ''Colors in colormap: %d'' [0],
           TuiPrintf 0 4 ''Bits / color: %d'' [0],
           TuiPrintf 0 5 ''Memory needed: %d'' [100000],
           ScanKeys, ScanKeys, VideoMode, Timer3 61167,
           GetNextFrame exampleInfo 0, Decode 38416 exampleInfo 1]"
proof -
  have k: "waitForKeyA [False, True] = Some (Suc (Suc 0))"
    by simp
  have t: "ucast (65536 - 65536 div (15 :: 32 word)) = (61167 :: 16 word)"
    by simp
  show ?thesis
    unfolding decoderMain_def Let_def k
    by (simp add: exampleCalls_def exampleInfo_def sizeofScratchPad_def t)
qed

end
